theory Spec2Isabelle
  imports Complex_Main "HOL-Library.Word" "HOL-Library.Multiset"
begin

section \<open>Grid-maze game (game1)\<close>

text \<open>
  The maze is the global \<^verbatim>\<open>int gameMap[MAP_SIZE][MAP_SIZE]\<close>; the tank, the single
  bullet, the render cache of \<^verbatim>\<open>drawGame\<close> and the three timestamps are globals as well.
  They are gathered in one record that every function takes and returns.
  \<^verbatim>\<open>unsigned long\<close> is 32 bits wide on the ESP32, so timestamps are \<open>32 word\<close>.
\<close>

type_synonym u32 = "32 word"

definition MAP_SIZE :: int where "MAP_SIZE = 8"
definition JOY_THRESHOLD_LOW :: int where "JOY_THRESHOLD_LOW = 1000"
definition JOY_THRESHOLD_HIGH :: int where "JOY_THRESHOLD_HIGH = 3000"
definition TANK_MOVE_DELAY :: u32 where "TANK_MOVE_DELAY = 150"
definition BULLET_MOVE_DELAY :: u32 where "BULLET_MOVE_DELAY = 50"
definition FIRE_DEBOUNCE :: u32 where "FIRE_DEBOUNCE = 200"

definition gameMap :: "int list list" where
  "gameMap =
    [[1,1,1,1,1,1,1,1],
     [1,0,0,1,0,0,0,1],
     [1,0,1,1,0,1,0,1],
     [1,0,0,0,0,1,0,1],
     [1,1,0,1,0,0,0,1],
     [1,0,0,0,1,1,0,1],
     [1,0,1,0,0,0,0,1],
     [1,1,1,1,1,1,1,1]]"

text \<open>\<^verbatim>\<open>gameMap[y][x]\<close>; every read in the source is guarded by the bounds test.\<close>

definition cell :: "int \<Rightarrow> int \<Rightarrow> int" where
  "cell y x = gameMap ! nat y ! nat x"

record maze =
  tankX :: int
  tankY :: int
  tankDir :: int
  prevTankX :: int
  prevTankY :: int
  bulletActive :: bool
  bulletX :: int
  bulletY :: int
  bulletDir :: int
  prevBulletActive :: bool
  prevBulletX :: int
  prevBulletY :: int
  lastTankMove :: u32
  lastBulletMove :: u32
  lastFireTime :: u32

text \<open>
  The \<^verbatim>\<open>if / else if\<close> chain of \<^verbatim>\<open>readJoystickAndFire\<close>: the requested cell, the new
  heading and \<^verbatim>\<open>wantsToMove\<close>.
\<close>

definition joyRequest :: "int \<Rightarrow> int \<Rightarrow> maze \<Rightarrow> int \<times> int \<times> int \<times> bool" where
  "joyRequest joyY joyX s =
    (if joyY < JOY_THRESHOLD_LOW then (tankX s, tankY s - 1, 0, True)
     else if joyY > JOY_THRESHOLD_HIGH then (tankX s, tankY s + 1, 2, True)
     else if joyX < JOY_THRESHOLD_LOW then (tankX s - 1, tankY s, 3, True)
     else if joyX > JOY_THRESHOLD_HIGH then (tankX s + 1, tankY s, 1, True)
     else (tankX s, tankY s, tankDir s, False))"

text \<open>The guard of the move: inside the map and on a cell of value 0.\<close>

definition passable :: "int \<Rightarrow> int \<Rightarrow> bool" where
  "passable newX newY \<longleftrightarrow>
     newX \<ge> 0 \<and> newX < MAP_SIZE \<and> newY \<ge> 0 \<and> newY < MAP_SIZE \<and> cell newY newX = 0"

definition readJoystickAndFire :: "int \<Rightarrow> int \<Rightarrow> bool \<Rightarrow> u32 \<Rightarrow> maze \<Rightarrow> maze" where
  "readJoystickAndFire joyY joyX firePressed now s =
    (case joyRequest joyY joyX s of (newX, newY, dir, wantsToMove) \<Rightarrow>
      let s1 = s\<lparr>tankDir := dir\<rparr>;
          s2 = (if wantsToMove \<and> passable newX newY
                then s1\<lparr>tankX := newX, tankY := newY\<rparr> else s1)
      in if firePressed \<and> \<not> bulletActive s2 \<and> now - lastFireTime s2 > FIRE_DEBOUNCE
         then s2\<lparr>lastFireTime := now, bulletActive := True, bulletX := tankX s2,
                 bulletY := tankY s2, bulletDir := tankDir s2, lastBulletMove := now\<rparr>
         else s2)"

text \<open>
  \<^verbatim>\<open>moveBullet\<close>. The bounds tests come first in the \<^verbatim>\<open>||\<close> chain, so the map is read
  only inside the map.
\<close>

definition moveBullet :: "maze \<Rightarrow> maze" where
  "moveBullet s =
    (if \<not> bulletActive s then s
     else
       let s1 = (if bulletDir s = 0 then s\<lparr>bulletY := bulletY s - 1\<rparr>
                 else if bulletDir s = 1 then s\<lparr>bulletX := bulletX s + 1\<rparr>
                 else if bulletDir s = 2 then s\<lparr>bulletY := bulletY s + 1\<rparr>
                 else if bulletDir s = 3 then s\<lparr>bulletX := bulletX s - 1\<rparr>
                 else s)
       in if bulletX s1 < 0 \<or> bulletX s1 \<ge> MAP_SIZE \<or> bulletY s1 < 0 \<or> bulletY s1 \<ge> MAP_SIZE
             \<or> cell (bulletY s1) (bulletX s1) = 1
          then s1\<lparr>bulletActive := False\<rparr> else s1)"

text \<open>\<^verbatim>\<open>drawGame\<close> changes only the render cache (its \<^verbatim>\<open>fillRect\<close> calls touch the display).\<close>

definition drawGame :: "maze \<Rightarrow> maze" where
  "drawGame s =
    (let s1 = s\<lparr>prevTankX := tankX s, prevTankY := tankY s, prevBulletActive := bulletActive s\<rparr>
     in if bulletActive s then s1\<lparr>prevBulletX := bulletX s, prevBulletY := bulletY s\<rparr> else s1)"

text \<open>The resets at the top of \<^verbatim>\<open>game1\<close>, applied to whatever the globals held.\<close>

definition game1_init :: "u32 \<Rightarrow> maze \<Rightarrow> maze" where
  "game1_init now s =
     s\<lparr>tankX := 1, tankY := 1, tankDir := 0, prevTankX := 1, prevTankY := 1,
       bulletActive := False, prevBulletActive := False,
       lastTankMove := now, lastBulletMove := now, lastFireTime := now\<rparr>"

text \<open>One pass of the \<^verbatim>\<open>while(true)\<close> body of \<^verbatim>\<open>game1\<close>, up to the exit test.\<close>

record maze_input =
  m_now :: u32
  m_joyY :: int
  m_joyX :: int
  m_fire :: bool

definition game1_iter :: "maze_input \<Rightarrow> maze \<Rightarrow> maze" where
  "game1_iter i s =
    (let s1 = (if m_now i - lastTankMove s > TANK_MOVE_DELAY
               then (readJoystickAndFire (m_joyY i) (m_joyX i) (m_fire i) (m_now i) s)
                      \<lparr>lastTankMove := m_now i\<rparr>
               else s);
         s2 = (if m_now i - lastBulletMove s1 > BULLET_MOVE_DELAY
               then (moveBullet s1)\<lparr>lastBulletMove := m_now i\<rparr> else s1)
     in drawGame s2)"

text \<open>The tank stands inside the map on a free cell.\<close>

definition tank_ok :: "maze \<Rightarrow> bool" where
  "tank_ok s \<longleftrightarrow> passable (tankX s) (tankY s)"

section \<open>Lane-dodge game (game2)\<close>

subsection \<open>C floats\<close>

text \<open>
  A \<^verbatim>\<open>float\<close> is a finite value, an infinity or NaN. Finite arithmetic is taken as
  exact: the rounding of binary32 and the overflow of finite results are not modelled.
  What is modelled is what the control flow of \<^verbatim>\<open>game2\<close> depends on: division by zero
  gives an infinity or NaN instead of trapping, NaN spreads through arithmetic, and every
  comparison with NaN is false.

  The positions and speeds of the player, the enemies and the bullets only ever receive
  sums and products of finite values, so these fields are \<open>real\<close>; the control signal,
  which is the quotient of two calibration differences, is a \<open>cfloat\<close>.
\<close>

datatype cfloat = Fin real | PInf | NInf | NaN

text \<open>\<^verbatim>\<open>(float)a / (float)b\<close> for two finite operands.\<close>

definition fdiv :: "real \<Rightarrow> real \<Rightarrow> cfloat" where
  "fdiv a b =
    (if b = 0 then (if a = 0 then NaN else if a > 0 then PInf else NInf)
     else Fin (a / b))"

fun fadd :: "cfloat \<Rightarrow> cfloat \<Rightarrow> cfloat" where
  "fadd NaN _ = NaN"
| "fadd _ NaN = NaN"
| "fadd (Fin a) (Fin b) = Fin (a + b)"
| "fadd PInf NInf = NaN"
| "fadd NInf PInf = NaN"
| "fadd PInf _ = PInf"
| "fadd _ PInf = PInf"
| "fadd NInf _ = NInf"
| "fadd _ NInf = NInf"

fun fmul :: "cfloat \<Rightarrow> cfloat \<Rightarrow> cfloat" where
  "fmul NaN _ = NaN"
| "fmul _ NaN = NaN"
| "fmul (Fin a) (Fin b) = Fin (a * b)"
| "fmul (Fin a) PInf = (if a = 0 then NaN else if a > 0 then PInf else NInf)"
| "fmul (Fin a) NInf = (if a = 0 then NaN else if a > 0 then NInf else PInf)"
| "fmul PInf (Fin b) = (if b = 0 then NaN else if b > 0 then PInf else NInf)"
| "fmul NInf (Fin b) = (if b = 0 then NaN else if b > 0 then NInf else PInf)"
| "fmul PInf PInf = PInf"
| "fmul NInf NInf = PInf"
| "fmul PInf NInf = NInf"
| "fmul NInf PInf = NInf"

text \<open>\<^verbatim>\<open>a < b\<close> on floats; \<^verbatim>\<open>a > b\<close> is \<open>flt b a\<close>.\<close>

fun flt :: "cfloat \<Rightarrow> cfloat \<Rightarrow> bool" where
  "flt NaN _ = False"
| "flt _ NaN = False"
| "flt (Fin a) (Fin b) = (a < b)"
| "flt NInf NInf = False"
| "flt NInf _ = True"
| "flt _ NInf = False"
| "flt PInf _ = False"
| "flt _ PInf = True"

fun fneg :: "cfloat \<Rightarrow> cfloat" where
  "fneg (Fin a) = Fin (- a)"
| "fneg PInf = NInf"
| "fneg NInf = PInf"
| "fneg NaN = NaN"

text \<open>\<^verbatim>\<open>(int)f\<close> truncates towards zero.\<close>

definition toInt :: "real \<Rightarrow> int" where
  "toInt r = (if r \<ge> 0 then \<lfloor>r\<rfloor> else \<lceil>r\<rceil>)"

text \<open>
  Modelled from the spec: the macros \<^verbatim>\<open>constrain\<close> and \<^verbatim>\<open>abs\<close> and the function
  \<^verbatim>\<open>random\<close> belong to the Arduino core, which is not part of the repository.
  \<^verbatim>\<open>constrain(amt,low,high)\<close> is \<^verbatim>\<open>((amt)<(low)?(low):((amt)>(high)?(high):(amt)))\<close>,
  \<^verbatim>\<open>abs(x)\<close> is \<^verbatim>\<open>((x)>0?(x):-(x))\<close>, and \<^verbatim>\<open>random(howsmall, howbig)\<close> is the random
  source of the spec's section 6 with an exclusive upper bound: \<^verbatim>\<open>howsmall\<close> when the
  range is empty, else \<^verbatim>\<open>howsmall\<close> plus a raw value modulo the width. The raw values are
  the stream \<open>src\<close>, a parameter of everything that draws random numbers; the game state
  counts the draws made so far.
\<close>

definition constrain :: "cfloat \<Rightarrow> cfloat \<Rightarrow> cfloat \<Rightarrow> cfloat" where
  "constrain amt low high = (if flt amt low then low else if flt high amt then high else amt)"

definition fabs :: "cfloat \<Rightarrow> cfloat" where
  "fabs x = (if flt (Fin 0) x then x else fneg x)"

definition arduino_random :: "(nat \<Rightarrow> nat) \<Rightarrow> nat \<Rightarrow> int \<Rightarrow> int \<Rightarrow> int" where
  "arduino_random src k howsmall howbig =
    (if howsmall \<ge> howbig then howsmall
     else howsmall + int (src k) mod (howbig - howsmall))"

subsection \<open>Constants and screen geometry\<close>

definition FRAME_MS :: u32 where "FRAME_MS = 20"
definition CAR_W :: int where "CAR_W = 28"
definition CAR_H :: int where "CAR_H = 20"
definition ROAD_MARGIN :: int where "ROAD_MARGIN = 6"
definition LANE_COUNT :: int where "LANE_COUNT = 7"
definition MAX_ENEMIES :: nat where "MAX_ENEMIES = 4"
definition MAX_PLAYER_BULLETS :: nat where "MAX_PLAYER_BULLETS = 6"
definition MAX_ENEMY_BULLETS :: nat where "MAX_ENEMY_BULLETS = 10"
definition PLAYER_MAX_SPEED :: real where "PLAYER_MAX_SPEED = 5"
definition PLAYER_ACCEL :: real where "PLAYER_ACCEL = 6 / 10"
definition BASE_ENEMY_SPEED :: real where "BASE_ENEMY_SPEED = 12 / 10"
definition ENEMY_FIRE_INTERVAL_MIN :: int where "ENEMY_FIRE_INTERVAL_MIN = 900"
definition ENEMY_FIRE_INTERVAL_MAX :: int where "ENEMY_FIRE_INTERVAL_MAX = 2200"
definition PLAYER_FIRE_COOLDOWN :: u32 where "PLAYER_FIRE_COOLDOWN = 220"
definition DIFF_GROW_PER_SEC :: real where "DIFF_GROW_PER_SEC = 3 / 100"
definition SPAWN_MIN_GAP_PIXELS :: int where "SPAWN_MIN_GAP_PIXELS = CAR_H + 24"
definition DEADZONE_RATIO :: real where "DEADZONE_RATIO = 15 / 100"

text \<open>
  \<^verbatim>\<open>tft.width()\<close> and \<^verbatim>\<open>tft.height()\<close> come from the display driver: they are the
  parameter \<open>d\<close> of the game. The sketch sets the ST7735 up as 128 by 160.
\<close>

record display =
  scrW :: int
  scrH :: int

definition roadX :: int where "roadX = ROAD_MARGIN"

definition roadW :: "display \<Rightarrow> int" where
  "roadW d = scrW d - 2 * ROAD_MARGIN"

definition laneW :: "display \<Rightarrow> real" where
  "laneW d = real_of_int (roadW d) / real_of_int LANE_COUNT"

subsection \<open>Input conditioner\<close>

record calib =
  minVal :: int
  maxVal :: int
  center :: int

text \<open>
  The calibration routine: one sample at rest, then the minimum and maximum of the samples
  read during the 3000 ms sweep, starting from 4095 and 0.
\<close>

definition calibrate :: "int \<Rightarrow> int list \<Rightarrow> calib" where
  "calibrate centerSample sweep =
    \<lparr>minVal = fold (\<lambda>val m. if val < m then val else m) sweep 4095,
     maxVal = fold (\<lambda>val m. if val > m then val else m) sweep 0,
     center = centerSample\<rparr>"

text \<open>The two clamps of the raw sample, in the order of the source.\<close>

definition clampRaw :: "calib \<Rightarrow> int \<Rightarrow> int" where
  "clampRaw c raw0 =
    (let raw1 = (if raw0 < minVal c then minVal c else raw0)
     in if raw1 > maxVal c then maxVal c else raw1)"

text \<open>The piecewise quotient, before \<^verbatim>\<open>constrain\<close>. No test guards either divisor.\<close>

definition quotient :: "calib \<Rightarrow> int \<Rightarrow> cfloat" where
  "quotient c raw =
    (if raw \<ge> center c
     then fdiv (real_of_int (raw - center c)) (real_of_int (maxVal c - center c))
     else fdiv (real_of_int (raw - center c)) (real_of_int (center c - minVal c)))"

definition normalizeAxis :: "calib \<Rightarrow> int \<Rightarrow> cfloat" where
  "normalizeAxis c raw0 = constrain (quotient c (clampRaw c raw0)) (Fin (- 1)) (Fin 1)"

definition deadzone :: "cfloat \<Rightarrow> cfloat" where
  "deadzone n = (if flt (fabs n) (Fin DEADZONE_RATIO) then Fin 0 else n)"

text \<open>\<^verbatim>\<open>lastN = lastN*0.6f + n*0.4f\<close>\<close>

definition smooth :: "cfloat \<Rightarrow> cfloat \<Rightarrow> cfloat" where
  "smooth lastN0 n = fadd (fmul lastN0 (Fin (6 / 10))) (fmul n (Fin (4 / 10)))"

definition readControl :: "calib \<Rightarrow> int \<Rightarrow> cfloat \<Rightarrow> cfloat" where
  "readControl c raw0 lastN0 = smooth lastN0 (deadzone (normalizeAxis c raw0))"

subsection \<open>Entities, pools and the session state\<close>

text \<open>
  The fields of \<^verbatim>\<open>struct Bullet\<close> and \<^verbatim>\<open>struct Enemy\<close> carry a prefix, since both
  structs name theirs \<^verbatim>\<open>x\<close>, \<^verbatim>\<open>y\<close> and \<^verbatim>\<open>active\<close>. The three pools are arrays of fixed
  size: lists, whose lengths the well-formedness predicate \<open>wf\<close> fixes. The two arrays
  of each render cache stay two lists.
\<close>

record bullet =
  b_x :: real
  b_y :: real
  b_vy :: real
  b_active :: bool

record enemy =
  e_x :: real
  e_y :: real
  e_speed :: real
  e_active :: bool
  e_nextFireAt :: u32
  e_lane :: int

record game =
  cal :: calib
  playerX :: real
  playerY :: int
  playerVel :: real
  lastPlayerFire :: u32
  playerBullets :: "bullet list"
  enemyBullets :: "bullet list"
  enemies :: "enemy list"
  prevPlayerX :: int
  prevPlayerY :: int
  prevEnemyX :: "int list"
  prevEnemyY :: "int list"
  prevPlayerBulletX :: "int list"
  prevPlayerBulletY :: "int list"
  prevEnemyBulletX :: "int list"
  prevEnemyBulletY :: "int list"
  isGameOver :: bool
  lastN :: cfloat
  lastFrame :: u32
  startTime :: u32
  lastScoreTick :: u32
  score :: u32
  rnd :: nat

definition wf :: "game \<Rightarrow> bool" where
  "wf s \<longleftrightarrow>
     length (enemies s) = MAX_ENEMIES \<and> length (prevEnemyX s) = MAX_ENEMIES
     \<and> length (prevEnemyY s) = MAX_ENEMIES
     \<and> length (playerBullets s) = MAX_PLAYER_BULLETS
     \<and> length (prevPlayerBulletX s) = MAX_PLAYER_BULLETS
     \<and> length (prevPlayerBulletY s) = MAX_PLAYER_BULLETS
     \<and> length (enemyBullets s) = MAX_ENEMY_BULLETS
     \<and> length (prevEnemyBulletX s) = MAX_ENEMY_BULLETS
     \<and> length (prevEnemyBulletY s) = MAX_ENEMY_BULLETS"

text \<open>The number of active slots of a pool.\<close>

definition activeCount :: "('a \<Rightarrow> bool) \<Rightarrow> 'a list \<Rightarrow> nat" where
  "activeCount act pool = length (filter act pool)"

text \<open>
  The search \<^verbatim>\<open>for(b=0;b<MAX;b++) if(!pool[b].active){idx=b;break;}\<close>: the first
  inactive slot, \<open>None\<close> for the source's \<^verbatim>\<open>-1\<close>.
\<close>

fun firstInactive :: "('a \<Rightarrow> bool) \<Rightarrow> 'a list \<Rightarrow> nat option" where
  "firstInactive act [] = None"
| "firstInactive act (p # pool) =
     (if \<not> act p then Some 0 else map_option Suc (firstInactive act pool))"

subsection \<open>The event log\<close>

text \<open>
  Every function of the frame returns, next to the new state, the events it caused, in
  the order of the statements of the source: the integration of a position, a call of
  \<^verbatim>\<open>eraseRect\<close>, a call of \<^verbatim>\<open>drawTank\<close>, \<^verbatim>\<open>drawEnemyRect\<close> or \<^verbatim>\<open>drawBullet\<close>,
  an assignment to an \<^verbatim>\<open>active\<close> flag, the evaluation of a collision test, the
  explosion flash (\<^verbatim>\<open>fillRect\<close>, \<^verbatim>\<open>delay(40)\<close>, \<^verbatim>\<open>eraseRect\<close>), the HUD repaint and
  the read of the back button. An \<open>Erase\<close> carries the slot whose sprite the call
  removes and the rectangle passed to \<^verbatim>\<open>eraseRect\<close>.
\<close>

datatype slot = PlayerSlot | EnemySlot nat | PlayerBulletSlot nat | EnemyBulletSlot nat

datatype event =
    Physics slot
  | Erase slot int int int int
  | Draw slot int int
  | Activate slot
  | Deactivate slot
  | Collide slot slot
  | Flash int int int int
  | Hud u32 int
  | ExitCheck

text \<open>A \<^verbatim>\<open>for\<close> loop over slot indices, with the events of its passes in order.\<close>

fun forSlots :: "(nat \<Rightarrow> 's \<Rightarrow> 's \<times> event list) \<Rightarrow> nat list \<Rightarrow> 's \<Rightarrow> 's \<times> event list" where
  "forSlots body [] s = (s, [])"
| "forSlots body (i # is) s =
     (case body i s of (s1, t1) \<Rightarrow>
        case forSlots body is s1 of (s2, t2) \<Rightarrow> (s2, t1 @ t2))"

subsection \<open>Spawn director\<close>

text \<open>
  The Fisher-Yates pass \<^verbatim>\<open>for(i=n-1;i>0;i--){j=random(0,i+1); swap a[i], a[j]}\<close>;
  \<open>k\<close> counts the random draws.
\<close>

fun shuffle :: "(nat \<Rightarrow> nat) \<Rightarrow> nat \<Rightarrow> int list \<Rightarrow> nat \<Rightarrow> int list \<times> nat" where
  "shuffle src k a 0 = (a, k)"
| "shuffle src k a (Suc i) =
     (let j = nat (arduino_random src k 0 (int (Suc i) + 1))
      in shuffle src (Suc k) (a[Suc i := a ! j, j := a ! Suc i]) i)"

text \<open>
  The spawn loop \<^verbatim>\<open>for(i=0;i<ac&&spawned<MAX_ENEMIES;i++)\<close>. Every pass either leaves the
  loop or raises \<^verbatim>\<open>spawned\<close> with \<^verbatim>\<open>i\<close>, so the lanes still to visit are the rest of the
  list. \<open>ms\<close> gives the reading of \<^verbatim>\<open>millis()\<close> taken for each spawned enemy.
\<close>

fun spawnLoop ::
  "display \<Rightarrow> (nat \<Rightarrow> nat) \<Rightarrow> (nat \<Rightarrow> u32) \<Rightarrow> real \<Rightarrow> int list \<Rightarrow> nat \<Rightarrow> game \<Rightarrow> game \<times> event list"
where
  "spawnLoop d src ms difficulty [] spawned s = (s, [])"
| "spawnLoop d src ms difficulty (lane # rest) spawned s =
     (if spawned < MAX_ENEMIES then
        (case firstInactive e_active (enemies s) of
           None \<Rightarrow> (s, [])
         | Some idx \<Rightarrow>
             let r1 = arduino_random src (rnd s) 0 50;
                 r2 = arduino_random src (Suc (rnd s)) ENEMY_FIRE_INTERVAL_MIN ENEMY_FIRE_INTERVAL_MAX;
                 en = \<lparr>e_x = real_of_int roadX + real_of_int lane * laneW d
                              + (laneW d - real_of_int CAR_W) / 2,
                       e_y = real_of_int (- (int spawned * (CAR_H + 8) + 8)),
                       e_speed = BASE_ENEMY_SPEED + real_of_int r1 / 50 + difficulty * (12 / 100),
                       e_active = True,
                       e_nextFireAt = ms spawned + word_of_int r2,
                       e_lane = lane\<rparr>
             in case spawnLoop d src ms difficulty rest (Suc spawned)
                       (s\<lparr>enemies := (enemies s)[idx := en], rnd := Suc (Suc (rnd s))\<rparr>) of
                  (s', t) \<Rightarrow> (s', Activate (EnemySlot idx) # t))
      else (s, []))"

text \<open>The gap lane drawn by a wave that starts at draw number \<open>k\<close>.\<close>

definition gapLaneOf :: "(nat \<Rightarrow> nat) \<Rightarrow> nat \<Rightarrow> int" where
  "gapLaneOf src k =
     arduino_random src (snd (shuffle src k (map int [0..<nat LANE_COUNT]) (nat LANE_COUNT - 1)))
       0 LANE_COUNT"

text \<open>The lanes offered to the spawn loop: all lanes but the gap lane, shuffled.\<close>

definition waveLanes :: "(nat \<Rightarrow> nat) \<Rightarrow> nat \<Rightarrow> int list \<times> nat" where
  "waveLanes src k =
    (case shuffle src k (map int [0..<nat LANE_COUNT]) (nat LANE_COUNT - 1) of
       (laneIndices, k1) \<Rightarrow>
         let gapLane = arduino_random src k1 0 LANE_COUNT;
             avail = filter (\<lambda>i. i \<noteq> gapLane) (map int [0..<nat LANE_COUNT]);
             ac = length avail
         in shuffle src (Suc k1) avail (ac - 1))"

definition spawnEnemiesWave ::
  "display \<Rightarrow> (nat \<Rightarrow> nat) \<Rightarrow> (nat \<Rightarrow> u32) \<Rightarrow> real \<Rightarrow> game \<Rightarrow> game \<times> event list"
where
  "spawnEnemiesWave d src ms difficulty s =
    (case waveLanes src (rnd s) of
       (avail, k) \<Rightarrow> spawnLoop d src ms difficulty avail 0 (s\<lparr>rnd := k\<rparr>))"

subsection \<open>The frame\<close>

text \<open>
  What a pass of the loop reads from outside: \<^verbatim>\<open>now = millis()\<close>, the axis sample, the two
  buttons (true for pressed, that is \<^verbatim>\<open>LOW\<close>), and the readings of \<^verbatim>\<open>millis()\<close> inside
  the spawner.
\<close>

record frame_input =
  in_now :: u32
  in_raw :: int
  in_btn3 :: bool
  in_btnBack :: bool
  in_millis :: "nat \<Rightarrow> u32"

text \<open>
  The acceleration-limited approach of \<^verbatim>\<open>playerVel\<close> to \<^verbatim>\<open>targetVel\<close>. The velocity is
  set to the target only between two comparisons that make the target finite
  (\<open>approach_target_finite\<close> below), so \<open>finite_of\<close> is read on finite values only.
\<close>

fun finite_of :: "cfloat \<Rightarrow> real" where
  "finite_of (Fin r) = r"
| "finite_of _ = 0"

definition approach :: "real \<Rightarrow> cfloat \<Rightarrow> real" where
  "approach vel targetVel =
    (if flt (Fin vel) targetVel then
       (let v1 = vel + PLAYER_ACCEL in if flt targetVel (Fin v1) then finite_of targetVel else v1)
     else if flt targetVel (Fin vel) then
       (let v1 = vel - PLAYER_ACCEL in if flt (Fin v1) targetVel then finite_of targetVel else v1)
     else vel)"

text \<open>Joystick read and player movement, up to the erase of the old player sprite.\<close>

definition playerStep :: "display \<Rightarrow> int \<Rightarrow> game \<Rightarrow> game \<times> event list" where
  "playerStep d raw0 s =
    (let smoothN = readControl (cal s) raw0 (lastN s);
         targetVel = fmul smoothN (Fin PLAYER_MAX_SPEED);
         vel = approach (playerVel s) targetVel;
         oldPlayerXf = playerX s;
         x1 = oldPlayerXf + vel;
         x2 = (if x1 < real_of_int roadX then real_of_int roadX else x1);
         x3 = (if x2 > real_of_int (roadX + roadW d - CAR_W)
               then real_of_int (roadX + roadW d - CAR_W) else x2)
     in (s\<lparr>lastN := smoothN, playerVel := vel, playerX := x3\<rparr>,
         Physics PlayerSlot #
           (if toInt oldPlayerXf \<noteq> toInt x3
            then [Erase PlayerSlot (prevPlayerX s) (prevPlayerY s - 6) CAR_W (CAR_H + 6)]
            else [])))"

text \<open>Player fire: honoured once per cooldown, dropped when no slot is free.\<close>

definition playerFire :: "frame_input \<Rightarrow> game \<Rightarrow> game \<times> event list" where
  "playerFire i s =
    (if in_btn3 i \<and> in_now i - lastPlayerFire s \<ge> PLAYER_FIRE_COOLDOWN \<and> \<not> isGameOver s then
       (case firstInactive b_active (playerBullets s) of
          None \<Rightarrow> (s, [])
        | Some bIdx \<Rightarrow>
            (s\<lparr>playerBullets := (playerBullets s)[bIdx :=
                   \<lparr>b_x = playerX s + real_of_int (CAR_W div 2),
                    b_y = real_of_int (playerY s - 6),
                    b_vy = - (65 / 10), b_active = True\<rparr>],
               prevPlayerBulletX := (prevPlayerBulletX s)[bIdx := - 100],
               prevPlayerBulletY := (prevPlayerBulletY s)[bIdx := - 100],
               lastPlayerFire := in_now i\<rparr>,
             [Activate (PlayerBulletSlot bIdx)]))
     else (s, []))"

text \<open>The allocation of an enemy bullet by enemy \<open>en\<close>.\<close>

definition enemyFire :: "real \<Rightarrow> enemy \<Rightarrow> game \<Rightarrow> game \<times> event list" where
  "enemyFire difficulty en s =
    (case firstInactive b_active (enemyBullets s) of
       None \<Rightarrow> (s, [])
     | Some eb \<Rightarrow>
         (s\<lparr>enemyBullets := (enemyBullets s)[eb :=
                \<lparr>b_x = e_x en + real_of_int (CAR_W div 2),
                 b_y = e_y en + real_of_int CAR_H + 4,
                 b_vy = 3 + difficulty * (6 / 10), b_active = True\<rparr>],
            prevEnemyBulletX := (prevEnemyBulletX s)[eb := - 100],
            prevEnemyBulletY := (prevEnemyBulletY s)[eb := - 100]\<rparr>,
          [Activate (EnemyBulletSlot eb)]))"

text \<open>
  One pass of the enemy loop; \<^verbatim>\<open>speedMultiplier\<close> is the constant 1.0. The local
  \<^verbatim>\<open>maxEnemyY\<close> of the source is written here and read nowhere, and is left out.
\<close>

definition enemyStep ::
  "display \<Rightarrow> (nat \<Rightarrow> nat) \<Rightarrow> u32 \<Rightarrow> real \<Rightarrow> nat \<Rightarrow> game \<Rightarrow> game \<times> event list"
where
  "enemyStep d src t difficulty e s =
    (let en = enemies s ! e in
     if \<not> e_active en then (s, [])
     else
       let t1 = (if prevEnemyY s ! e \<ge> - 1000
                 then [Erase (EnemySlot e) (prevEnemyX s ! e) (prevEnemyY s ! e) CAR_W (CAR_H + 4)]
                 else []);
           en1 = en\<lparr>e_y := e_y en + e_speed en * 1\<rparr>;
           px = toInt (e_x en1);
           py = toInt (e_y en1);
           s1 = s\<lparr>enemies := (enemies s)[e := en1],
                  prevEnemyX := (prevEnemyX s)[e := px],
                  prevEnemyY := (prevEnemyY s)[e := py]\<rparr>;
           t2 = t1 @ [Physics (EnemySlot e), Draw (EnemySlot e) px py]
       in if e_y en1 > real_of_int (scrH d) then
            (s1\<lparr>enemies := (enemies s1)[e := en1\<lparr>e_active := False\<rparr>]\<rparr>,
             t2 @ [Deactivate (EnemySlot e), Erase (EnemySlot e) px py CAR_W (CAR_H + 4)])
          else if sint t \<ge> sint (e_nextFireAt en1) then
            (case enemyFire difficulty en1 s1 of
               (s2, t3) \<Rightarrow>
                 let r = arduino_random src (rnd s2) ENEMY_FIRE_INTERVAL_MIN ENEMY_FIRE_INTERVAL_MAX
                 in (s2\<lparr>enemies := (enemies s2)[e := en1\<lparr>e_nextFireAt := t + word_of_int r\<rparr>],
                        rnd := Suc (rnd s2)\<rparr>,
                     t2 @ t3))
          else (s1, t2))"

definition playerBulletStep :: "nat \<Rightarrow> game \<Rightarrow> game \<times> event list" where
  "playerBulletStep b s =
    (let bu = playerBullets s ! b in
     if \<not> b_active bu then (s, [])
     else
       let t1 = (if prevPlayerBulletY s ! b \<ge> 0
                 then [Erase (PlayerBulletSlot b) (prevPlayerBulletX s ! b - 3)
                         (prevPlayerBulletY s ! b - 6) 6 12]
                 else []);
           bu1 = bu\<lparr>b_y := b_y bu + b_vy bu\<rparr>;
           px = toInt (b_x bu1);
           py = toInt (b_y bu1);
           s1 = s\<lparr>playerBullets := (playerBullets s)[b := bu1],
                  prevPlayerBulletX := (prevPlayerBulletX s)[b := px],
                  prevPlayerBulletY := (prevPlayerBulletY s)[b := py]\<rparr>;
           t2 = t1 @ [Physics (PlayerBulletSlot b), Draw (PlayerBulletSlot b) px py]
       in if b_y bu1 < - 12 then
            (s1\<lparr>playerBullets := (playerBullets s1)[b := bu1\<lparr>b_active := False\<rparr>]\<rparr>,
             t2 @ [Deactivate (PlayerBulletSlot b),
                   Erase (PlayerBulletSlot b) (px - 3) (py - 6) 6 12])
          else (s1, t2))"

definition enemyBulletStep :: "display \<Rightarrow> nat \<Rightarrow> game \<Rightarrow> game \<times> event list" where
  "enemyBulletStep d b s =
    (let bu = enemyBullets s ! b in
     if \<not> b_active bu then (s, [])
     else
       let t1 = (if prevEnemyBulletY s ! b \<ge> 0
                 then [Erase (EnemyBulletSlot b) (prevEnemyBulletX s ! b - 3)
                         (prevEnemyBulletY s ! b - 6) 6 12]
                 else []);
           bu1 = bu\<lparr>b_y := b_y bu + b_vy bu\<rparr>;
           px = toInt (b_x bu1);
           py = toInt (b_y bu1);
           s1 = s\<lparr>enemyBullets := (enemyBullets s)[b := bu1],
                  prevEnemyBulletX := (prevEnemyBulletX s)[b := px],
                  prevEnemyBulletY := (prevEnemyBulletY s)[b := py]\<rparr>;
           t2 = t1 @ [Physics (EnemyBulletSlot b), Draw (EnemyBulletSlot b) px py]
       in if b_y bu1 > real_of_int (scrH d + 12) then
            (s1\<lparr>enemyBullets := (enemyBullets s1)[b := bu1\<lparr>b_active := False\<rparr>]\<rparr>,
             t2 @ [Deactivate (EnemyBulletSlot b),
                   Erase (EnemyBulletSlot b) (px - 3) (py - 6) 6 12])
          else (s1, t2))"

text \<open>
  The overlap test of both collision loops, on truncated coordinates: the bullet reaches
  2 pixels to each side and 4 pixels up and down of \<open>(bx, by)\<close>, the other rectangle
  spans \<^verbatim>\<open>CAR_W\<close> by \<^verbatim>\<open>CAR_H\<close> from its corner \<open>(ex, ey)\<close>.
\<close>

definition hitTest :: "int \<Rightarrow> int \<Rightarrow> int \<Rightarrow> int \<Rightarrow> bool" where
  "hitTest bx by0 ex ey \<longleftrightarrow>
     \<not> (bx + 2 < ex \<or> bx - 2 > ex + CAR_W \<or> by0 + 4 < ey \<or> by0 - 4 > ey + CAR_H)"

text \<open>The test of player bullet \<open>b\<close> against enemy \<open>e\<close> in a state.\<close>

definition overlaps :: "game \<Rightarrow> nat \<Rightarrow> nat \<Rightarrow> bool" where
  "overlaps s b e \<longleftrightarrow>
     hitTest (toInt (b_x (playerBullets s ! b))) (toInt (b_y (playerBullets s ! b)))
             (toInt (e_x (enemies s ! e))) (toInt (e_y (enemies s ! e)))"

text \<open>
  The body of the inner loop of the bullet-enemy collisions. The inner loop has no
  \<^verbatim>\<open>break\<close>: after a hit, bullet \<open>b\<close> is still tested against the enemies that follow.
\<close>

definition collidePair :: "nat \<Rightarrow> nat \<Rightarrow> game \<Rightarrow> game \<times> event list" where
  "collidePair b e s =
    (if \<not> e_active (enemies s ! e) then (s, [])
     else
       let ex = toInt (e_x (enemies s ! e));
           ey = toInt (e_y (enemies s ! e))
       in if overlaps s b e then
            (s\<lparr>enemies := (enemies s)[e := (enemies s ! e)\<lparr>e_active := False\<rparr>],
               playerBullets := (playerBullets s)[b := (playerBullets s ! b)\<lparr>b_active := False\<rparr>],
               score := score s + 10\<rparr>,
             [Collide (PlayerBulletSlot b) (EnemySlot e),
              Deactivate (EnemySlot e), Deactivate (PlayerBulletSlot b),
              Erase (EnemySlot e) ex ey CAR_W (CAR_H + 4),
              Erase (PlayerBulletSlot b) (prevPlayerBulletX s ! b - 3)
                (prevPlayerBulletY s ! b - 6) 6 12,
              Flash (ex + 4) (ey + 4) (CAR_W - 8) (CAR_H - 8)])
          else (s, [Collide (PlayerBulletSlot b) (EnemySlot e)]))"

definition collideBullet :: "nat \<Rightarrow> game \<Rightarrow> game \<times> event list" where
  "collideBullet b s =
    (if \<not> b_active (playerBullets s ! b) then (s, [])
     else forSlots (collidePair b) [0..<MAX_ENEMIES] s)"

definition collidePlayerBullets :: "game \<Rightarrow> game \<times> event list" where
  "collidePlayerBullets s = forSlots collideBullet [0..<MAX_PLAYER_BULLETS] s"

text \<open>The test of enemy bullet \<open>b\<close> against the player rectangle.\<close>

definition hitsPlayer :: "game \<Rightarrow> nat \<Rightarrow> bool" where
  "hitsPlayer s b \<longleftrightarrow>
     hitTest (toInt (b_x (enemyBullets s ! b))) (toInt (b_y (enemyBullets s ! b)))
             (toInt (playerX s)) (playerY s)"

text \<open>The enemy-bullet loop stops at the first hit (\<^verbatim>\<open>break\<close>).\<close>

fun collideEnemyBullets :: "nat list \<Rightarrow> game \<Rightarrow> game \<times> event list" where
  "collideEnemyBullets [] s = (s, [])"
| "collideEnemyBullets (b # bs) s =
     (if \<not> b_active (enemyBullets s ! b) then collideEnemyBullets bs s
      else if hitsPlayer s b then
        (s\<lparr>enemyBullets := (enemyBullets s)[b := (enemyBullets s ! b)\<lparr>b_active := False\<rparr>],
           isGameOver := True\<rparr>,
         [Collide (EnemyBulletSlot b) PlayerSlot, Deactivate (EnemyBulletSlot b),
          Erase (EnemyBulletSlot b) (prevEnemyBulletX s ! b - 3)
            (prevEnemyBulletY s ! b - 6) 6 12])
      else (case collideEnemyBullets bs s of
              (s', t) \<Rightarrow> (s', Collide (EnemyBulletSlot b) PlayerSlot # t)))"

text \<open>The score tick and the HUD repaint.\<close>

definition hud :: "u32 \<Rightarrow> real \<Rightarrow> game \<Rightarrow> game \<times> event list" where
  "hud t difficulty s =
    (let s1 = (if t - lastScoreTick s \<ge> 200
               then s\<lparr>score := score s + 1, lastScoreTick := t\<rparr> else s)
     in (s1, [Hud (score s1) (toInt (difficulty * 10))]))"

text \<open>The test for a new wave: no enemy active, or the furthest one past the gap.\<close>

definition waveDue :: "game \<Rightarrow> bool" where
  "waveDue s =
    (let act = filter e_active (enemies s);
         maxY = fold (\<lambda>en m. if toInt (e_y en) > m then toInt (e_y en) else m) act (- 10000)
     in act = [] \<or> maxY > SPAWN_MIN_GAP_PIXELS)"

definition newWave :: "display \<Rightarrow> (nat \<Rightarrow> nat) \<Rightarrow> frame_input \<Rightarrow> real \<Rightarrow> game \<Rightarrow> game \<times> event list" where
  "newWave d src i difficulty s =
    (if waveDue s then spawnEnemiesWave d src (in_millis i) difficulty s else (s, []))"

definition drawPlayer :: "game \<Rightarrow> game \<times> event list" where
  "drawPlayer s =
    (let curPlayerX = toInt (playerX s)
     in (s\<lparr>prevPlayerX := curPlayerX, prevPlayerY := playerY s\<rparr>,
         [Draw PlayerSlot curPlayerX (playerY s)]))"

text \<open>\<^verbatim>\<open>difficulty = 1.0f + ((now - startTime) / 1000.0f) * DIFF_GROW_PER_SEC\<close>\<close>

definition difficultyAt :: "u32 \<Rightarrow> game \<Rightarrow> real" where
  "difficultyAt t s = 1 + (real (unat (t - startTime s)) / 1000) * DIFF_GROW_PER_SEC"

text \<open>Sequencing of two stages of the frame.\<close>

definition andThen ::
  "('s \<Rightarrow> 's \<times> event list) \<Rightarrow> ('s \<Rightarrow> 's \<times> event list) \<Rightarrow> 's \<Rightarrow> 's \<times> event list" where
  "andThen f g s = (case f s of (s1, t1) \<Rightarrow> case g s1 of (s2, t2) \<Rightarrow> (s2, t1 @ t2))"

text \<open>Lines 676 to 753: input, player movement, fire, and the three movement loops.\<close>

definition physicsPhase :: "display \<Rightarrow> (nat \<Rightarrow> nat) \<Rightarrow> frame_input \<Rightarrow> game \<Rightarrow> game \<times> event list" where
  "physicsPhase d src i s =
     andThen (playerStep d (in_raw i))
    (andThen (playerFire i)
    (andThen (forSlots (enemyStep d src (in_now i) (difficultyAt (in_now i) s)) [0..<MAX_ENEMIES])
    (andThen (forSlots playerBulletStep [0..<MAX_PLAYER_BULLETS])
             (forSlots (enemyBulletStep d) [0..<MAX_ENEMY_BULLETS])))) s"

text \<open>Lines 756 to 784: the two collision loops.\<close>

definition collisionPhase :: "game \<Rightarrow> game \<times> event list" where
  "collisionPhase s = andThen collidePlayerBullets (collideEnemyBullets [0..<MAX_ENEMY_BULLETS]) s"

text \<open>Lines 787 to 801: score tick and HUD, new wave, player sprite.\<close>

definition finishPhase :: "display \<Rightarrow> (nat \<Rightarrow> nat) \<Rightarrow> frame_input \<Rightarrow> real \<Rightarrow> game \<Rightarrow> game \<times> event list" where
  "finishPhase d src i difficulty s =
     andThen (hud (in_now i) difficulty)
    (andThen (newWave d src i difficulty) drawPlayer) s"

text \<open>
  How a pass of the frame loop ends: the loop goes on, the back button returns to the
  menu, or the game-over screen is shown, after which \<^verbatim>\<open>game2\<close> returns or starts anew.
\<close>

datatype outcome = Running game | Exited | GameOverScreen game

definition exitCheck :: "frame_input \<Rightarrow> game \<Rightarrow> outcome" where
  "exitCheck i s =
    (if in_btnBack i then Exited else if isGameOver s then GameOverScreen s else Running s)"

text \<open>The statements of a frame from \<^verbatim>\<open>lastFrame=now\<close> to the player sprite.\<close>

definition frameSteps :: "display \<Rightarrow> (nat \<Rightarrow> nat) \<Rightarrow> frame_input \<Rightarrow> game \<Rightarrow> game \<times> event list" where
  "frameSteps d src i s =
    (let s0 = s\<lparr>lastFrame := in_now i\<rparr>;
         difficulty = difficultyAt (in_now i) s0
     in andThen (physicsPhase d src i)
          (andThen collisionPhase (finishPhase d src i difficulty)) s0)"

definition frameBody :: "display \<Rightarrow> (nat \<Rightarrow> nat) \<Rightarrow> frame_input \<Rightarrow> game \<Rightarrow> outcome \<times> event list" where
  "frameBody d src i s =
    (case frameSteps d src i s of (s1, t) \<Rightarrow> (exitCheck i s1, t @ [ExitCheck]))"

text \<open>A pass of \<^verbatim>\<open>while(true)\<close>: the pacing test, then the frame.\<close>

definition frame :: "display \<Rightarrow> (nat \<Rightarrow> nat) \<Rightarrow> frame_input \<Rightarrow> game \<Rightarrow> outcome \<times> event list" where
  "frame d src i s =
    (if in_now i - lastFrame s < FRAME_MS then (Running s, []) else frameBody d src i s)"

text \<open>
  The game-over screen polls both buttons for 5000 ms: fire restarts \<^verbatim>\<open>game2\<close>, back or
  the end of the window returns. \<open>polls\<close> are the button samples read in the window.
\<close>

datatype ending = Restart | ToMenu

fun gameOverWait :: "(bool \<times> bool) list \<Rightarrow> ending" where
  "gameOverWait [] = ToMenu"
| "gameOverWait ((fire, back) # polls) =
     (if fire then Restart else if back then ToMenu else gameOverWait polls)"

text \<open>
  The state at the top of the frame loop. The pool entries are left uninitialised by the
  source apart from their \<^verbatim>\<open>active\<close> flag; every other field is written before it is
  read, and stands as 0 here. The three readings of \<^verbatim>\<open>millis()\<close> that start the clocks
  are one value \<open>t\<close>.
\<close>

definition game2_init :: "display \<Rightarrow> (nat \<Rightarrow> nat) \<Rightarrow> (nat \<Rightarrow> u32) \<Rightarrow> calib \<Rightarrow> u32 \<Rightarrow> game" where
  "game2_init d src ms c t =
    fst (spawnEnemiesWave d src ms 1
      \<lparr>cal = c,
       playerX = real_of_int roadX + real_of_int (roadW d - CAR_W) / 2,
       playerY = scrH d - CAR_H - 8,
       playerVel = 0,
       lastPlayerFire = 0,
       playerBullets = replicate MAX_PLAYER_BULLETS \<lparr>b_x = 0, b_y = 0, b_vy = 0, b_active = False\<rparr>,
       enemyBullets = replicate MAX_ENEMY_BULLETS \<lparr>b_x = 0, b_y = 0, b_vy = 0, b_active = False\<rparr>,
       enemies = replicate MAX_ENEMIES
         \<lparr>e_x = 0, e_y = 0, e_speed = 0, e_active = False, e_nextFireAt = 0, e_lane = 0\<rparr>,
       prevPlayerX = toInt (real_of_int roadX + real_of_int (roadW d - CAR_W) / 2),
       prevPlayerY = scrH d - CAR_H - 8,
       prevEnemyX = replicate MAX_ENEMIES (- 100),
       prevEnemyY = replicate MAX_ENEMIES (- 100),
       prevPlayerBulletX = replicate MAX_PLAYER_BULLETS (- 100),
       prevPlayerBulletY = replicate MAX_PLAYER_BULLETS (- 100),
       prevEnemyBulletX = replicate MAX_ENEMY_BULLETS (- 100),
       prevEnemyBulletY = replicate MAX_ENEMY_BULLETS (- 100),
       isGameOver = False,
       lastN = Fin 0,
       lastFrame = t, startTime = t, lastScoreTick = t,
       score = 0,
       rnd = 0\<rparr>)"

text \<open>A session: passes of the frame loop for as long as the loop goes on.\<close>

fun session :: "display \<Rightarrow> (nat \<Rightarrow> nat) \<Rightarrow> frame_input list \<Rightarrow> game \<Rightarrow> outcome" where
  "session d src [] s = Running s"
| "session d src (i # is) s =
     (case fst (frame d src i s) of
        Running s' \<Rightarrow> session d src is s'
      | Exited \<Rightarrow> Exited
      | GameOverScreen s' \<Rightarrow> GameOverScreen s')"

subsection \<open>Auxiliary notions for the proofs\<close>

text \<open>The lengths of the nine arrays of the state, as one value.\<close>

definition shape :: "game \<Rightarrow> nat list" where
  "shape s = [length (enemies s), length (prevEnemyX s), length (prevEnemyY s),
     length (playerBullets s), length (prevPlayerBulletX s), length (prevPlayerBulletY s),
     length (enemyBullets s), length (prevEnemyBulletX s), length (prevEnemyBulletY s)]"












text \<open>A pool after a request keeps every slot that was active.\<close>

definition keepsActive :: "('a \<Rightarrow> bool) \<Rightarrow> 'a list \<Rightarrow> 'a list \<Rightarrow> bool" where
  "keepsActive act pool pool' \<longleftrightarrow>
     length pool' = length pool \<and> (\<forall>k < length pool. act (pool ! k) \<longrightarrow> pool' ! k = pool ! k)"

text \<open>A step that leaves the enemy bullets and the game-over flag alone.\<close>

definition keepsVerdict :: "game \<Rightarrow> event list \<Rightarrow> game \<Rightarrow> bool" where
  "keepsVerdict s t s' \<longleftrightarrow> isGameOver s' = isGameOver s \<and> enemyBullets s' = enemyBullets s"

text \<open>
  The states of a frame in which the collisions are evaluated: after the movement loops,
  where the player bullets are tested against the enemies, and after those tests, where
  the enemy bullets are tested against the player.
\<close>

definition afterPhysics :: "display \<Rightarrow> (nat \<Rightarrow> nat) \<Rightarrow> frame_input \<Rightarrow> game \<Rightarrow> game" where
  "afterPhysics d src i s = fst (physicsPhase d src i (s\<lparr>lastFrame := in_now i\<rparr>))"

definition atPlayerTest :: "display \<Rightarrow> (nat \<Rightarrow> nat) \<Rightarrow> frame_input \<Rightarrow> game \<Rightarrow> game" where
  "atPlayerTest d src i s = fst (collidePlayerBullets (afterPhysics d src i s))"

text \<open>
  Along the bullet-enemy collisions the positions stay and activity only goes away.
\<close>

definition sameGeometry :: "game \<Rightarrow> game \<Rightarrow> bool" where
  "sameGeometry s s' \<longleftrightarrow>
     (\<forall>k. b_x (playerBullets s' ! k) = b_x (playerBullets s ! k)
          \<and> b_y (playerBullets s' ! k) = b_y (playerBullets s ! k)
          \<and> (b_active (playerBullets s' ! k) \<longrightarrow> b_active (playerBullets s ! k)))
     \<and> (\<forall>k. e_x (enemies s' ! k) = e_x (enemies s ! k)
          \<and> e_y (enemies s' ! k) = e_y (enemies s ! k)
          \<and> (e_active (enemies s' ! k) \<longrightarrow> e_active (enemies s ! k)))"

text \<open>What the tests of one bullet \<open>b\<close> against the enemies do.\<close>

definition bulletPass :: "nat \<Rightarrow> game \<Rightarrow> event list \<Rightarrow> game \<Rightarrow> bool" where
  "bulletPass b s t s' \<longleftrightarrow>
     (wf s \<longrightarrow> wf s')
     \<and> sameGeometry s s'
     \<and> (\<forall>e. e_active (enemies s ! e) \<and> \<not> e_active (enemies s' ! e) \<longrightarrow> e < 4 \<and> overlaps s b e)
     \<and> (\<forall>b'. b' \<noteq> b \<longrightarrow> playerBullets s' ! b' = playerBullets s ! b')
     \<and> (b_active (playerBullets s ! b) \<and> \<not> b_active (playerBullets s' ! b) \<longrightarrow>
          (\<exists>e < 4. e_active (enemies s ! e) \<and> overlaps s b e))"

text \<open>What the whole double loop does.\<close>

definition collisionPass :: "game \<Rightarrow> event list \<Rightarrow> game \<Rightarrow> bool" where
  "collisionPass s t s' \<longleftrightarrow>
     (wf s \<longrightarrow> wf s')
     \<and> sameGeometry s s'
     \<and> (\<forall>e. e_active (enemies s ! e) \<and> \<not> e_active (enemies s' ! e) \<longrightarrow>
          e < 4 \<and> (\<exists>b < 6. b_active (playerBullets s ! b) \<and> overlaps s b e))
     \<and> (\<forall>b. b_active (playerBullets s ! b) \<and> \<not> b_active (playerBullets s' ! b) \<longrightarrow>
          b < 6 \<and> (\<exists>e < 4. e_active (enemies s ! e) \<and> overlaps s b e))"

text \<open>
  The render cache read as positions, and what an event log says about a slot: where it
  was last drawn (the cache value \<open>c\<close> when the log draws it nowhere), and how many times
  its sprite was erased after it was last drawn.
\<close>

definition cachedPos :: "game \<Rightarrow> slot \<Rightarrow> int \<times> int" where
  "cachedPos s k =
    (case k of
       PlayerSlot \<Rightarrow> (prevPlayerX s, prevPlayerY s)
     | EnemySlot e \<Rightarrow> (prevEnemyX s ! e, prevEnemyY s ! e)
     | PlayerBulletSlot b \<Rightarrow> (prevPlayerBulletX s ! b, prevPlayerBulletY s ! b)
     | EnemyBulletSlot b \<Rightarrow> (prevEnemyBulletX s ! b, prevEnemyBulletY s ! b))"

fun lastDrawn :: "slot \<Rightarrow> event list \<Rightarrow> int \<times> int \<Rightarrow> int \<times> int" where
  "lastDrawn k [] c = c"
| "lastDrawn k (Draw k' x y # tr) c = lastDrawn k tr (if k' = k then (x, y) else c)"
| "lastDrawn k (_ # tr) c = lastDrawn k tr c"

fun erasesSinceDraw :: "slot \<Rightarrow> event list \<Rightarrow> nat \<Rightarrow> nat" where
  "erasesSinceDraw k [] n = n"
| "erasesSinceDraw k (Draw k' x y # tr) n = erasesSinceDraw k tr (if k' = k then 0 else n)"
| "erasesSinceDraw k (Erase k' x y w h # tr) n = erasesSinceDraw k tr (if k' = k then Suc n else n)"
| "erasesSinceDraw k (_ # tr) n = erasesSinceDraw k tr n"

subsection \<open>Concrete values for evaluating the definitions\<close>

text \<open>A set of globals of the grid-maze game.\<close>

definition maze0 :: maze where
  "maze0 = \<lparr>tankX = 3, tankY = 5, tankDir = 1, prevTankX = 3, prevTankY = 5,
     bulletActive = True, bulletX = 3, bulletY = 4, bulletDir = 0,
     prevBulletActive = True, prevBulletX = 3, prevBulletY = 5,
     lastTankMove = 0, lastBulletMove = 0, lastFireTime = 0\<rparr>"

text \<open>
  A session of the lane-dodge game: the 128 by 160 display, the scenario calibration, a
  random stream and a clock for the spawner.
\<close>

definition d0 :: display where
  "d0 = \<lparr>scrW = 128, scrH = 160\<rparr>"

definition c0 :: calib where
  "c0 = \<lparr>minVal = 200, maxVal = 3800, center = 2000\<rparr>"

definition src0 :: "nat \<Rightarrow> nat" where
  "src0 k = 7 * k + 3"

definition ms0 :: "nat \<Rightarrow> u32" where
  "ms0 k = 1000"

text \<open>
  The state at the top of the frame loop of that session, started at 1000 ms, and the
  input of a first frame 200 ms later, with the fire button held.
\<close>

definition g0 :: game where
  "g0 = game2_init d0 src0 ms0 c0 1000"

definition i0 :: frame_input where
  "i0 = \<lparr>in_now = 1200, in_raw = 2000, in_btn3 = True, in_btnBack = False,
          in_millis = (\<lambda>k. 1200)\<rparr>"

text \<open>A frame input at time \<open>t\<close> with the fire button held, and six fires after \<open>g0\<close>.\<close>

definition fire_at :: "u32 \<Rightarrow> frame_input" where
  "fire_at t = \<lparr>in_now = t, in_raw = 2000, in_btn3 = True, in_btnBack = False, in_millis = (\<lambda>k. t)\<rparr>"

definition g6 :: game where
  "g6 = fold (\<lambda>t s. fst (playerFire (fire_at t) s)) [1220, 1440, 1660, 1880, 2100, 2320] g0"

text \<open>The state \<open>g0\<close> with enemy slot 1 made free.\<close>

definition g1 :: game where
  "g1 = g0\<lparr>enemies := (enemies g0)[1 := (enemies g0 ! 1)\<lparr>e_active := False\<rparr>]\<rparr>"

text \<open>The state \<open>g0\<close> with an enemy bullet just above the player.\<close>

definition g2 :: game where
  "g2 = g0\<lparr>enemyBullets := (enemyBullets g0)
           [0 := \<lparr>b_x = 60, b_y = 130, b_vy = 36 / 10, b_active = True\<rparr>]\<rparr>"

text \<open>
  The state \<open>g0\<close> with enemy 0 in lane 2 and two player bullets fired 220 ms apart, four
  frames of 55 ms between them, and a frame input without fire.
\<close>

definition gc :: game where
  "gc = g0\<lparr>enemies := (enemies g0)
            [0 := \<lparr>e_x = 234 / 7, e_y = 57, e_speed = 15 / 10, e_active = True,
                   e_nextFireAt = 5000, e_lane = 2\<rparr>],
          playerBullets := (playerBullets g0)
            [0 := \<lparr>b_x = 50, b_y = 61, b_vy = - (65 / 10), b_active = True\<rparr>,
             1 := \<lparr>b_x = 52, b_y = 87, b_vy = - (65 / 10), b_active = True\<rparr>]\<rparr>"

definition i1 :: frame_input where
  "i1 = \<lparr>in_now = 1200, in_raw = 2000, in_btn3 = False, in_btnBack = False,
          in_millis = (\<lambda>k. 1200)\<rparr>"

text \<open>
  The state \<open>g0\<close> with enemies 0 and 1 side by side in the lanes 2 and 3, whose sprites
  (28 wide in lanes 16.6 wide) overlap, and a player bullet below both; the caches hold
  where the three were drawn in the frame before.
\<close>

definition gd :: game where
  "gd = g0\<lparr>enemies := (enemies g0)
            [0 := \<lparr>e_x = 234 / 7, e_y = 57, e_speed = 15 / 10, e_active = True,
                   e_nextFireAt = 5000, e_lane = 2\<rparr>,
             1 := \<lparr>e_x = 50, e_y = 45, e_speed = 13 / 10, e_active = True,
                   e_nextFireAt = 5000, e_lane = 3\<rparr>],
          prevEnemyX := (prevEnemyX g0)[0 := 33, 1 := 50],
          prevEnemyY := (prevEnemyY g0)[0 := 57, 1 := 45],
          playerBullets := (playerBullets g0)
            [0 := \<lparr>b_x = 55, b_y = 61, b_vy = - (65 / 10), b_active = True\<rparr>],
          prevPlayerBulletX := (prevPlayerBulletX g0)[0 := 55],
          prevPlayerBulletY := (prevPlayerBulletY g0)[0 := 61]\<rparr>"

subsection \<open>Proofs for the grid-maze game\<close>

lemma readJoystickAndFire_tank:
  "tankX (readJoystickAndFire joyY joyX firePressed now s) =
     (case joyRequest joyY joyX s of (newX, newY, dir, wantsToMove) \<Rightarrow>
        if wantsToMove \<and> passable newX newY then newX else tankX s)"
  "tankY (readJoystickAndFire joyY joyX firePressed now s) =
     (case joyRequest joyY joyX s of (newX, newY, dir, wantsToMove) \<Rightarrow>
        if wantsToMove \<and> passable newX newY then newY else tankY s)"
  by (auto simp: readJoystickAndFire_def Let_def split: prod.splits)

lemma moveBullet_tank: "tankX (moveBullet s) = tankX s" "tankY (moveBullet s) = tankY s"
  by (simp_all add: moveBullet_def Let_def)

lemma drawGame_tank: "tankX (drawGame s) = tankX s" "tankY (drawGame s) = tankY s"
  by (simp_all add: drawGame_def Let_def)

lemma readJoystickAndFire_ok: "tank_ok s \<Longrightarrow> tank_ok (readJoystickAndFire joyY joyX firePressed now s)"
  by (simp add: tank_ok_def readJoystickAndFire_tank split: prod.splits)

lemma game1_iter_ok: "tank_ok s \<Longrightarrow> tank_ok (game1_iter i s)"
  by (simp add: game1_iter_def Let_def tank_ok_def drawGame_tank moveBullet_tank
      readJoystickAndFire_tank split: prod.splits)

lemma game1_init_ok: "tank_ok (game1_init now s)"
  by (simp add: tank_ok_def game1_init_def passable_def MAP_SIZE_def cell_def gameMap_def)

lemma game1_run_ok: "tank_ok s \<Longrightarrow> tank_ok (fold game1_iter ins s)"
  by (induction ins arbitrary: s) (simp_all add: game1_iter_ok)

text \<open>
  Claim C10. In the grid-maze game, in every state reached from the start of \<^verbatim>\<open>game1\<close>
  by any number of passes of its loop, an input step (\<^verbatim>\<open>readJoystickAndFire\<close>) leaves the
  tank inside the 8 by 8 map on a cell whose map value is 0, and when the requested cell
  is a wall or lies outside the map the tank position is unchanged.
\<close>

theorem tank_stays_on_free_cell:
  assumes "s = fold game1_iter ins (game1_init t g)"
    and "s' = readJoystickAndFire joyY joyX firePressed now s"
    and "joyRequest joyY joyX s = (newX, newY, dir, wantsToMove)"
  shows "(0 \<le> tankX s' \<and> tankX s' < 8 \<and> 0 \<le> tankY s' \<and> tankY s' < 8
          \<and> gameMap ! nat (tankY s') ! nat (tankX s') = 0)
       \<and> (\<not> (0 \<le> newX \<and> newX < 8 \<and> 0 \<le> newY \<and> newY < 8
               \<and> gameMap ! nat newY ! nat newX = 0)
            \<longrightarrow> tankX s' = tankX s \<and> tankY s' = tankY s)"
proof -
  have "tank_ok s"
    unfolding assms(1) by (rule game1_run_ok [OF game1_init_ok])
  then have "tank_ok s'"
    unfolding assms(2) by (rule readJoystickAndFire_ok)
  then have inv: "0 \<le> tankX s' \<and> tankX s' < 8 \<and> 0 \<le> tankY s' \<and> tankY s' < 8
      \<and> gameMap ! nat (tankY s') ! nat (tankX s') = 0"
    by (simp add: tank_ok_def passable_def MAP_SIZE_def cell_def)
  have "tankX s' = tankX s \<and> tankY s' = tankY s" if "\<not> passable newX newY"
    using that assms(3) by (simp add: assms(2) readJoystickAndFire_tank)
  then show ?thesis
    using inv by (simp add: passable_def MAP_SIZE_def cell_def)
qed

text \<open>
  The theorem at a concrete run: one loop pass pushes the tank up from (1,1) against the
  top wall, then the input step asks for the cell (0,1) to the left, a wall.
\<close>

theorem tank_stays_on_free_cell_witness:
  "tankX (readJoystickAndFire 2000 500 False 400
      (fold game1_iter [\<lparr>m_now = 200, m_joyY = 500, m_joyX = 2000, m_fire = True\<rparr>]
         (game1_init 0 maze0))) = 1
   \<and> tankY (readJoystickAndFire 2000 500 False 400
      (fold game1_iter [\<lparr>m_now = 200, m_joyY = 500, m_joyX = 2000, m_fire = True\<rparr>]
         (game1_init 0 maze0))) = 1
   \<and> joyRequest 2000 500
      (fold game1_iter [\<lparr>m_now = 200, m_joyY = 500, m_joyX = 2000, m_fire = True\<rparr>]
         (game1_init 0 maze0)) = (0, 1, 3, True)
   \<and> gameMap ! nat 1 ! nat 0 = (1::int)"
proof -
  let ?s = "fold game1_iter [\<lparr>m_now = 200, m_joyY = 500, m_joyX = 2000, m_fire = True\<rparr>]
         (game1_init 0 maze0)"
  have pos: "tankX ?s = 1" "tankY ?s = 1"
    by (simp_all add: game1_iter_def Let_def drawGame_tank moveBullet_tank
        readJoystickAndFire_tank joyRequest_def game1_init_def maze0_def passable_def
        JOY_THRESHOLD_LOW_def JOY_THRESHOLD_HIGH_def MAP_SIZE_def cell_def gameMap_def
        TANK_MOVE_DELAY_def BULLET_MOVE_DELAY_def)
  have req: "joyRequest 2000 500 ?s = (0, 1, 3, True)"
    unfolding joyRequest_def pos by (simp add: JOY_THRESHOLD_LOW_def JOY_THRESHOLD_HIGH_def)
  have wall: "gameMap ! nat 1 ! nat 0 = (1::int)"
    by (simp add: gameMap_def)
  from tank_stays_on_free_cell [OF refl refl req, of False 400] wall pos req
  show ?thesis by simp
qed

section \<open>Proofs for the lane-dodge game\<close>

subsection \<open>Input conditioner\<close>

lemma constrain_range:
  "x \<noteq> NaN \<Longrightarrow> \<exists>v. constrain x (Fin (- 1)) (Fin 1) = Fin v \<and> - 1 \<le> v \<and> v \<le> 1"
  by (cases x) (auto simp: constrain_def)

lemma constrain_NaN: "constrain NaN low high = NaN"
  by (cases high) (simp_all add: constrain_def)

text \<open>The quotient is NaN exactly for 0/0: the clamped sample at a centre that is the maximum.\<close>

lemma quotient_NaN_iff:
  "quotient c r = NaN \<longleftrightarrow> (r = center c \<and> maxVal c = center c)"
  by (auto simp: quotient_def fdiv_def)

lemma clampRaw_range:
  "minVal c \<le> maxVal c \<Longrightarrow> minVal c \<le> clampRaw c raw0 \<and> clampRaw c raw0 \<le> maxVal c"
  by (auto simp: clampRaw_def Let_def)

lemma smooth_NaN: "smooth NaN n = NaN" "smooth l NaN = NaN"
  by (cases l; simp add: smooth_def)+

lemma deadzone_NaN: "deadzone NaN = NaN"
  by (simp add: deadzone_def fabs_def)

text \<open>
  Between two comparisons that hold, the target velocity is finite; against a NaN target
  both comparisons fail, so a NaN control signal leaves the velocity as it is.
\<close>

lemma approach_target_finite:
  "flt (Fin a) t \<Longrightarrow> flt t (Fin b) \<Longrightarrow> \<exists>r. t = Fin r"
  by (cases t) simp_all

lemma approach_NaN: "approach vel NaN = vel"
  by (simp add: approach_def)

lemma NaN_freezes_player:
  "lastN s = NaN \<Longrightarrow>
     lastN (fst (playerStep d raw0 s)) = NaN \<and> playerVel (fst (playerStep d raw0 s)) = playerVel s"
  by (simp add: playerStep_def Let_def readControl_def smooth_NaN approach_NaN)

text \<open>
  Away from the zero-width upper range the normalised value is a finite number between
  -1 and 1, for every raw sample.
\<close>

lemma normalizeAxis_in_range:
  assumes "maxVal c \<noteq> center c"
  shows "\<exists>v. normalizeAxis c raw0 = Fin v \<and> - 1 \<le> v \<and> v \<le> 1"
  unfolding normalizeAxis_def
  by (rule constrain_range) (simp add: quotient_NaN_iff assms)

text \<open>
  Claim C3 (the code departs from it). The claim asks that a zero-width calibration range
  be detected and give a constant zero signal, and that no calibration the routine can
  produce lead to a division by zero. The source divides unguarded. When the stick is not
  moved during the sweep the routine returns \<open>min = max = center\<close>; at the rest sample the
  divisor \<open>max - center\<close> is 0, the quotient is 0/0, and the NaN passes \<^verbatim>\<open>constrain\<close>,
  the deadzone test and the smoothing filter, where it stays for the rest of the session.
\<close>

theorem degenerate_calibration_divides_by_zero:
  "calibrate 2000 [2000, 2000, 2000] = \<lparr>minVal = 2000, maxVal = 2000, center = 2000\<rparr>
   \<and> maxVal (calibrate 2000 [2000, 2000, 2000]) - center (calibrate 2000 [2000, 2000, 2000]) = 0
   \<and> quotient (calibrate 2000 [2000, 2000, 2000])
        (clampRaw (calibrate 2000 [2000, 2000, 2000]) 2000) = NaN
   \<and> readControl (calibrate 2000 [2000, 2000, 2000]) 2000 (Fin 0) = NaN
   \<and> readControl (calibrate 2000 [2000, 2000, 2000]) 3000 NaN = NaN"
proof -
  have c: "calibrate 2000 [2000, 2000, 2000] = \<lparr>minVal = 2000, maxVal = 2000, center = 2000\<rparr>"
    by (simp add: calibrate_def)
  have q: "quotient \<lparr>minVal = 2000, maxVal = 2000, center = 2000\<rparr>
      (clampRaw \<lparr>minVal = 2000, maxVal = 2000, center = 2000\<rparr> 2000) = NaN"
    by (simp add: quotient_def clampRaw_def fdiv_def)
  show ?thesis
    unfolding c
    by (simp add: q readControl_def normalizeAxis_def constrain_NaN deadzone_NaN smooth_NaN)
qed

text \<open>
  Claim C6 (the code departs from it, by the defect of C3). The clamp into \<open>[min, max]\<close>
  comes first, and the scenario values hold: with \<open>{min=200, max=3800, center=2000}\<close> the
  sample 2000 gives 0 and the sample 3800 gives 1. But the normalised value is not in
  \<open>[-1, 1]\<close> for every raw sample: with a calibration swept to the low side only,
  \<open>{min=200, max=2000, center=2000}\<close>, every sample from 2000 upwards is clamped to the
  centre and normalised to 0/0, which is NaN.
\<close>

theorem normalized_value_not_always_in_range:
  "clampRaw \<lparr>minVal = 200, maxVal = 2000, center = 2000\<rparr> 2500 = 2000
   \<and> normalizeAxis \<lparr>minVal = 200, maxVal = 2000, center = 2000\<rparr> 2500 = NaN
   \<and> deadzone (normalizeAxis \<lparr>minVal = 200, maxVal = 2000, center = 2000\<rparr> 2500) = NaN
   \<and> normalizeAxis \<lparr>minVal = 200, maxVal = 3800, center = 2000\<rparr> 2000 = Fin 0
   \<and> normalizeAxis \<lparr>minVal = 200, maxVal = 3800, center = 2000\<rparr> 3800 = Fin 1"
  by (simp add: normalizeAxis_def quotient_def clampRaw_def fdiv_def constrain_def
      deadzone_def fabs_def)

subsection \<open>Loops, sequencing and array lengths\<close>

lemma forSlots_lift:
  assumes "\<And>s. R s [] s"
    and "\<And>s t1 s1 t2 s2. R s t1 s1 \<Longrightarrow> R s1 t2 s2 \<Longrightarrow> R s (t1 @ t2) s2"
    and "\<And>i s. i \<in> set js \<Longrightarrow> R s (snd (body i s)) (fst (body i s))"
  shows "R s (snd (forSlots body js s)) (fst (forSlots body js s))"
  using assms(3)
proof (induction js arbitrary: s)
  case Nil
  show ?case by (simp add: assms(1))
next
  case (Cons j js)
  have 1: "R s (snd (body j s)) (fst (body j s))"
    by (rule Cons.prems) simp
  have 2: "R (fst (body j s)) (snd (forSlots body js (fst (body j s))))
             (fst (forSlots body js (fst (body j s))))"
    by (rule Cons.IH) (simp add: Cons.prems)
  from assms(2) [OF 1 2] show ?case
    by (simp add: split_beta)
qed


lemma firstInactive_Some:
  "firstInactive act pool = Some k \<Longrightarrow> k < length pool \<and> \<not> act (pool ! k)"
  by (induction pool arbitrary: k) (auto split: if_splits)

lemma firstInactive_None:
  "firstInactive act pool = None \<longleftrightarrow> (\<forall>p \<in> set pool. act p)"
  by (induction pool) auto

lemma wf_shape: "wf s \<longleftrightarrow> shape s = [MAX_ENEMIES, MAX_ENEMIES, MAX_ENEMIES,
   MAX_PLAYER_BULLETS, MAX_PLAYER_BULLETS, MAX_PLAYER_BULLETS,
   MAX_ENEMY_BULLETS, MAX_ENEMY_BULLETS, MAX_ENEMY_BULLETS]"
  by (auto simp: wf_def shape_def)

lemma shape_playerStep: "shape (fst (playerStep d r s)) = shape s"
  by (simp add: playerStep_def Let_def shape_def)

lemma shape_playerFire: "shape (fst (playerFire i s)) = shape s"
  by (simp add: playerFire_def Let_def shape_def split: option.splits)

lemma shape_enemyFire: "shape (fst (enemyFire df en s)) = shape s"
  by (simp add: enemyFire_def Let_def shape_def split: option.splits)

lemmas len_enemyFire = shape_enemyFire [unfolded shape_def, simplified]

lemma shape_enemyStep: "shape (fst (enemyStep d src t df e s)) = shape s"
  unfolding enemyStep_def Let_def
  by (simp add: split_beta len_enemyFire shape_def)

lemma shape_playerBulletStep: "shape (fst (playerBulletStep b s)) = shape s"
  by (simp add: playerBulletStep_def Let_def shape_def)

lemma shape_enemyBulletStep: "shape (fst (enemyBulletStep d b s)) = shape s"
  by (simp add: enemyBulletStep_def Let_def shape_def)

lemma shape_collidePair: "shape (fst (collidePair b e s)) = shape s"
  by (simp add: collidePair_def Let_def shape_def)

lemma shape_hud: "shape (fst (hud t df s)) = shape s"
  by (simp add: hud_def Let_def shape_def)

lemma shape_drawPlayer: "shape (fst (drawPlayer s)) = shape s"
  by (simp add: drawPlayer_def Let_def shape_def)

lemma shape_collideEnemyBullets: "shape (fst (collideEnemyBullets bs s)) = shape s"
  by (induction bs arbitrary: s) (simp_all add: split_beta shape_def)

lemma shape_spawnLoop: "shape (fst (spawnLoop d src ms df lanes n s)) = shape s"
proof (induction lanes arbitrary: n s)
  case Nil
  show ?case by simp
next
  case (Cons lane rest)
  show ?case
    by (simp add: Let_def split_beta Cons.IH split: option.splits) (simp add: shape_def)
qed

lemma shape_spawnEnemiesWave: "shape (fst (spawnEnemiesWave d src ms df s)) = shape s"
  by (simp add: spawnEnemiesWave_def split_beta shape_spawnLoop) (simp add: shape_def)

lemma shape_forSlots:
  assumes "\<And>i s. shape (fst (body i s)) = shape s"
  shows "shape (fst (forSlots body js s)) = shape s"
  by (induction js arbitrary: s) (simp_all add: split_beta assms)

lemma shape_andThen:
  assumes "\<And>s. shape (fst (f s)) = shape s" and "\<And>s. shape (fst (g s)) = shape s"
  shows "shape (fst (andThen f g s)) = shape s"
  by (simp add: andThen_def split_beta assms)

lemma shape_collidePlayerBullets: "shape (fst (collidePlayerBullets s)) = shape s"
  unfolding collidePlayerBullets_def
  by (rule shape_forSlots) (simp add: collideBullet_def shape_forSlots shape_collidePair)

lemma shape_physicsPhase: "shape (fst (physicsPhase d src i s)) = shape s"
  unfolding physicsPhase_def
  by (intro shape_andThen shape_forSlots shape_playerStep shape_playerFire shape_enemyStep
      shape_playerBulletStep shape_enemyBulletStep)

lemma shape_collisionPhase: "shape (fst (collisionPhase s)) = shape s"
  unfolding collisionPhase_def
  by (intro shape_andThen shape_collidePlayerBullets shape_collideEnemyBullets)

lemma shape_newWave: "shape (fst (newWave d src i df s)) = shape s"
  by (simp add: newWave_def shape_spawnEnemiesWave)

lemma shape_finishPhase: "shape (fst (finishPhase d src i df s)) = shape s"
  unfolding finishPhase_def
  by (intro shape_andThen shape_hud shape_newWave shape_drawPlayer)

lemma shape_frameSteps: "shape (fst (frameSteps d src i s)) = shape s"
proof -
  have "shape (s\<lparr>lastFrame := t\<rparr>) = shape s" for t
    by (simp add: shape_def)
  moreover have "shape (fst (andThen (physicsPhase d src i)
          (andThen collisionPhase (finishPhase d src i df)) s')) = shape s'" for df s'
    by (intro shape_andThen shape_physicsPhase shape_collisionPhase shape_finishPhase)
  ultimately show ?thesis
    by (simp add: frameSteps_def Let_def)
qed

lemma wf_frameSteps: "wf s \<Longrightarrow> wf (fst (frameSteps d src i s))"
  by (simp add: wf_shape shape_frameSteps)

lemma wf_game2_init: "wf (game2_init d src ms c t)"
  by (simp add: game2_init_def wf_shape shape_spawnEnemiesWave) (simp add: shape_def)

subsection \<open>The events of each phase\<close>



















subsection \<open>Score\<close>






























subsection \<open>Pools\<close>

lemma activeCount_le: "activeCount act pool \<le> length pool"
  by (simp add: activeCount_def)

lemma activeCount_full: "activeCount act pool = length pool \<longleftrightarrow> (\<forall>p \<in> set pool. act p)"
proof (induction pool)
  case Nil
  show ?case by (simp add: activeCount_def)
next
  case (Cons p pool)
  have le: "activeCount act pool \<le> length pool"
    by (rule activeCount_le)
  show ?case
  proof (cases "act p")
    case True
    then show ?thesis using Cons.IH by (simp add: activeCount_def)
  next
    case False
    have "activeCount act (p # pool) = activeCount act pool"
      using False by (simp add: activeCount_def)
    then have "activeCount act (p # pool) \<noteq> length (p # pool)"
      using le by simp
    then show ?thesis using False by simp
  qed
qed

lemma firstInactive_full: "activeCount act pool = length pool \<Longrightarrow> firstInactive act pool = None"
  by (simp add: activeCount_full firstInactive_None)

lemma keepsActive_refl: "keepsActive act pool pool"
  by (simp add: keepsActive_def)

lemma keepsActive_trans:
  "keepsActive act p1 p2 \<Longrightarrow> keepsActive act p2 p3 \<Longrightarrow> keepsActive act p1 p3"
  by (auto simp: keepsActive_def)

lemma keepsActive_alloc:
  assumes "firstInactive act pool = Some idx"
  shows "keepsActive act pool (pool[idx := v])"
proof -
  have "\<not> act (pool ! idx)"
    using firstInactive_Some [OF assms] by simp
  then have "pool[idx := v] ! k = pool ! k" if "act (pool ! k)" for k
    using that by (cases "k = idx") simp_all
  then show ?thesis
    by (simp add: keepsActive_def)
qed

lemma playerFire_keeps:
  "keepsActive b_active (playerBullets s) (playerBullets (fst (playerFire i s)))"
  by (simp add: playerFire_def keepsActive_refl keepsActive_alloc split: option.splits)

lemma playerFire_full:
  "activeCount b_active (playerBullets s) = length (playerBullets s) \<Longrightarrow> playerFire i s = (s, [])"
  by (simp add: playerFire_def firstInactive_full)

lemma enemyFire_keeps:
  "keepsActive b_active (enemyBullets s) (enemyBullets (fst (enemyFire df en s)))"
  by (simp add: enemyFire_def keepsActive_refl keepsActive_alloc split: option.splits)

lemma enemyFire_full:
  "activeCount b_active (enemyBullets s) = length (enemyBullets s) \<Longrightarrow> enemyFire df en s = (s, [])"
  by (simp add: enemyFire_def firstInactive_full)

lemma spawnLoop_keeps:
  "keepsActive e_active (enemies s) (enemies (fst (spawnLoop d src ms df lanes n s)))"
proof (induction lanes arbitrary: n s)
  case Nil
  show ?case by (simp add: keepsActive_refl)
next
  case (Cons lane rest)
  show ?case
  proof (cases "firstInactive e_active (enemies s)")
    case None
    then show ?thesis by (simp add: keepsActive_refl)
  next
    case (Some idx)
    have step: "keepsActive e_active (enemies s)
        (enemies (fst (spawnLoop d src ms df rest (Suc n)
           (s\<lparr>enemies := (enemies s)[idx := en], rnd := k\<rparr>))))" for en k
    proof -
      have "keepsActive e_active ((enemies s)[idx := en])
          (enemies (fst (spawnLoop d src ms df rest (Suc n)
             (s\<lparr>enemies := (enemies s)[idx := en], rnd := k\<rparr>))))"
        using Cons.IH [of "s\<lparr>enemies := (enemies s)[idx := en], rnd := k\<rparr>" "Suc n"]
        by simp
      with keepsActive_alloc [OF Some, of en] show ?thesis
        by (rule keepsActive_trans)
    qed
    show ?thesis
      using Some step by (simp add: Let_def split_beta keepsActive_refl)
  qed
qed

lemma spawnEnemiesWave_keeps:
  "keepsActive e_active (enemies s) (enemies (fst (spawnEnemiesWave d src ms df s)))"
  using spawnLoop_keeps [of "s\<lparr>rnd := k\<rparr>" for k]
  by (simp add: spawnEnemiesWave_def split_beta)

lemma spawnLoop_full:
  "activeCount e_active (enemies s) = length (enemies s) \<Longrightarrow>
     enemies (fst (spawnLoop d src ms df lanes n s)) = enemies s
     \<and> snd (spawnLoop d src ms df lanes n s) = []"
  by (cases lanes) (simp_all add: firstInactive_full)

lemma spawnEnemiesWave_full:
  "activeCount e_active (enemies s) = length (enemies s) \<Longrightarrow>
     enemies (fst (spawnEnemiesWave d src ms df s)) = enemies s
     \<and> snd (spawnEnemiesWave d src ms df s) = []"
  using spawnLoop_full [of "s\<lparr>rnd := k\<rparr>" for k]
  by (simp add: spawnEnemiesWave_def split_beta)

lemma wf_frame: "wf s \<Longrightarrow> fst (frame d src i s) = Running s' \<Longrightarrow> wf s'"
  by (auto simp: frame_def frameBody_def split_beta exitCheck_def wf_frameSteps split: if_splits)

lemma wf_frame_over: "wf s \<Longrightarrow> fst (frame d src i s) = GameOverScreen s' \<Longrightarrow> wf s'"
  by (auto simp: frame_def frameBody_def split_beta exitCheck_def wf_frameSteps split: if_splits)

lemma wf_session:
  "wf s \<Longrightarrow> session d src ins s = Running s' \<or> session d src ins s = GameOverScreen s' \<Longrightarrow> wf s'"
proof (induction ins arbitrary: s)
  case Nil
  then show ?case by simp
next
  case (Cons i ins)
  show ?case
  proof (cases "fst (frame d src i s)")
    case (Running s1)
    then show ?thesis
      using Cons.prems Cons.IH [OF wf_frame [OF Cons.prems(1) Running]] by simp
  next
    case Exited
    then show ?thesis using Cons.prems by simp
  next
    case (GameOverScreen s1)
    then show ?thesis
      using Cons.prems wf_frame_over [OF Cons.prems(1) GameOverScreen] by auto
  qed
qed


text \<open>
  Claim C2. The state at the top of the frame loop is well-formed, and from a well-formed
  state every session, every phase and every frame leads to well-formed states: the pools
  keep their sizes 4, 6 and 10, so at most that many slots are active. A player fire, an
  enemy fire or a wave never changes a slot that is active; when every slot of the pool is
  active, the fire leaves the state as it is and logs nothing, and the wave leaves the
  enemies as they are and activates none.
\<close>

theorem pools_stay_within_capacity:
  "wf (game2_init d src ms c t)
   \<and> (wf s \<longrightarrow>
        (\<forall>ins s'. session d src ins s = Running s' \<or> session d src ins s = GameOverScreen s'
            \<longrightarrow> wf s')
      \<and> wf (fst (physicsPhase d src i s)) \<and> wf (fst (collisionPhase s))
      \<and> wf (fst (finishPhase d src i df s)) \<and> wf (fst (frameSteps d src i s))
      \<and> activeCount e_active (enemies s) \<le> 4
      \<and> activeCount b_active (playerBullets s) \<le> 6
      \<and> activeCount b_active (enemyBullets s) \<le> 10
      \<and> (\<forall>k < 6. b_active (playerBullets s ! k) \<longrightarrow>
             playerBullets (fst (playerFire i s)) ! k = playerBullets s ! k)
      \<and> (\<forall>k < 10. b_active (enemyBullets s ! k) \<longrightarrow>
             enemyBullets (fst (enemyFire df en s)) ! k = enemyBullets s ! k)
      \<and> (\<forall>k < 4. e_active (enemies s ! k) \<longrightarrow>
             enemies (fst (spawnEnemiesWave d src ms df s)) ! k = enemies s ! k)
      \<and> (activeCount b_active (playerBullets s) = 6 \<longrightarrow> playerFire i s = (s, []))
      \<and> (activeCount b_active (enemyBullets s) = 10 \<longrightarrow> enemyFire df en s = (s, []))
      \<and> (activeCount e_active (enemies s) = 4 \<longrightarrow>
             enemies (fst (spawnEnemiesWave d src ms df s)) = enemies s
             \<and> snd (spawnEnemiesWave d src ms df s) = []))"
proof -
  have init: "wf (game2_init d src ms c t)"
    by (rule wf_game2_init)
  have rest: "(\<forall>ins s'. session d src ins s = Running s' \<or> session d src ins s = GameOverScreen s'
            \<longrightarrow> wf s')
      \<and> wf (fst (physicsPhase d src i s)) \<and> wf (fst (collisionPhase s))
      \<and> wf (fst (finishPhase d src i df s)) \<and> wf (fst (frameSteps d src i s))
      \<and> activeCount e_active (enemies s) \<le> 4
      \<and> activeCount b_active (playerBullets s) \<le> 6
      \<and> activeCount b_active (enemyBullets s) \<le> 10
      \<and> (\<forall>k < 6. b_active (playerBullets s ! k) \<longrightarrow>
             playerBullets (fst (playerFire i s)) ! k = playerBullets s ! k)
      \<and> (\<forall>k < 10. b_active (enemyBullets s ! k) \<longrightarrow>
             enemyBullets (fst (enemyFire df en s)) ! k = enemyBullets s ! k)
      \<and> (\<forall>k < 4. e_active (enemies s ! k) \<longrightarrow>
             enemies (fst (spawnEnemiesWave d src ms df s)) ! k = enemies s ! k)
      \<and> (activeCount b_active (playerBullets s) = 6 \<longrightarrow> playerFire i s = (s, []))
      \<and> (activeCount b_active (enemyBullets s) = 10 \<longrightarrow> enemyFire df en s = (s, []))
      \<and> (activeCount e_active (enemies s) = 4 \<longrightarrow>
             enemies (fst (spawnEnemiesWave d src ms df s)) = enemies s
             \<and> snd (spawnEnemiesWave d src ms df s) = [])" if w: "wf s"
  proof -
    have len: "length (enemies s) = 4" "length (playerBullets s) = 6" "length (enemyBullets s) = 10"
      using w by (simp_all add: wf_def MAX_ENEMIES_def MAX_PLAYER_BULLETS_def MAX_ENEMY_BULLETS_def)
    have sess: "wf s'" if "session d src ins s = Running s' \<or> session d src ins s = GameOverScreen s'"
      for ins s'
      using w that by (rule wf_session)
    have phases: "wf (fst (physicsPhase d src i s))" "wf (fst (collisionPhase s))"
      "wf (fst (finishPhase d src i df s))" "wf (fst (frameSteps d src i s))"
      using w by (simp_all add: wf_shape shape_physicsPhase shape_collisionPhase
          shape_finishPhase shape_frameSteps)
    have counts: "activeCount e_active (enemies s) \<le> 4"
      "activeCount b_active (playerBullets s) \<le> 6"
      "activeCount b_active (enemyBullets s) \<le> 10"
      using activeCount_le [of e_active "enemies s"] activeCount_le [of b_active "playerBullets s"]
        activeCount_le [of b_active "enemyBullets s"]
      by (simp_all add: len)
    have keep1: "\<forall>k < 6. b_active (playerBullets s ! k) \<longrightarrow>
             playerBullets (fst (playerFire i s)) ! k = playerBullets s ! k"
      using playerFire_keeps [of s i] by (simp add: keepsActive_def len)
    have keep2: "\<forall>k < 10. b_active (enemyBullets s ! k) \<longrightarrow>
             enemyBullets (fst (enemyFire df en s)) ! k = enemyBullets s ! k"
      using enemyFire_keeps [of s df en] by (simp add: keepsActive_def len)
    have keep3: "\<forall>k < 4. e_active (enemies s ! k) \<longrightarrow>
             enemies (fst (spawnEnemiesWave d src ms df s)) ! k = enemies s ! k"
      using spawnEnemiesWave_keeps [of s d src ms df] by (simp add: keepsActive_def len)
    have full1: "playerFire i s = (s, [])" if "activeCount b_active (playerBullets s) = 6"
      using that by (intro playerFire_full) (simp add: len)
    have full2: "enemyFire df en s = (s, [])" if "activeCount b_active (enemyBullets s) = 10"
      using that by (intro enemyFire_full) (simp add: len)
    have full3: "enemies (fst (spawnEnemiesWave d src ms df s)) = enemies s
             \<and> snd (spawnEnemiesWave d src ms df s) = []"
      if "activeCount e_active (enemies s) = 4"
      using that by (intro spawnEnemiesWave_full) (simp add: len)
    show ?thesis
      using sess phases counts keep1 keep2 keep3 full1 full2 full3 by blast
  qed
  show ?thesis
    using init rest by blast
qed

text \<open>
  The scenario of the spec: six fire requests fill the player-bullet pool, the seventh
  changes nothing.
\<close>

theorem pools_stay_within_capacity_witness:
  "wf g6
   \<and> activeCount b_active (playerBullets g6) = 6
   \<and> playerFire (fire_at 2540) g6 = (g6, [])
   \<and> activeCount b_active (playerBullets (fst (playerFire (fire_at 2540) g6))) = 6
   \<and> activeCount e_active (enemies g6) = 4
   \<and> snd (spawnEnemiesWave d0 src0 ms0 1 g6) = []"
proof -
  have w: "wf g6" by code_simp
  have full: "activeCount b_active (playerBullets g6) = 6" "activeCount e_active (enemies g6) = 4"
    by code_simp+
  show ?thesis
    using pools_stay_within_capacity
      [where s = g6 and i = "fire_at 2540" and d = d0 and src = src0 and ms = ms0 and df = 1]
      w full
    by simp
qed

subsection \<open>Spawn director\<close>

lemma arduino_random_range:
  "lo < hi \<Longrightarrow> lo \<le> arduino_random src k lo hi \<and> arduino_random src k lo hi < hi"
proof -
  assume "lo < hi"
  define m where "m = int (src k) mod (hi - lo)"
  have "0 \<le> m \<and> m < hi - lo"
    using \<open>lo < hi\<close> by (simp add: m_def)
  moreover have "arduino_random src k lo hi = lo + m"
    using \<open>lo < hi\<close> by (simp add: arduino_random_def m_def)
  ultimately show ?thesis
    by linarith
qed

lemma shuffle_mset:
  "i < length a \<or> i = 0 \<Longrightarrow> mset (fst (shuffle src k a i)) = mset a"
proof (induction i arbitrary: a k)
  case 0
  show ?case by simp
next
  case (Suc i)
  let ?j = "nat (arduino_random src k 0 (int (Suc i) + 1))"
  have i: "Suc i < length a" using Suc.prems by simp
  have "0 \<le> arduino_random src k 0 (int (Suc i) + 1) \<and> arduino_random src k 0 (int (Suc i) + 1) < int (Suc i) + 1"
    by (rule arduino_random_range) simp
  then have j: "?j < length a" using i by linarith
  have sw: "mset (a[Suc i := a ! ?j, ?j := a ! Suc i]) = mset a"
    using mset_swap [OF j i] .
  have "mset (fst (shuffle src (Suc k) (a[Suc i := a ! ?j, ?j := a ! Suc i]) i))
      = mset (a[Suc i := a ! ?j, ?j := a ! Suc i])"
    by (rule Suc.IH) (use i in simp)
  moreover have "fst (shuffle src k a (Suc i))
      = fst (shuffle src (Suc k) (a[Suc i := a ! ?j, ?j := a ! Suc i]) i)"
    by (simp only: shuffle.simps Let_def)
  ultimately show ?case
    using sw by (simp only:)
qed

lemma avail_set:
  "set (filter (\<lambda>i. i \<noteq> g) (map int [0..<nat LANE_COUNT])) = {0..<LANE_COUNT} - {g}"
proof -
  have "int ` {0..<7::nat} = {0..<7}"
    using image_int_atLeastLessThan [of 0 7] by simp
  then show ?thesis
    by (auto simp: LANE_COUNT_def)
qed

lemma gapLane_range: "0 \<le> gapLaneOf src k \<and> gapLaneOf src k < LANE_COUNT"
  unfolding gapLaneOf_def by (rule arduino_random_range) (simp add: LANE_COUNT_def)

lemma waveLanes_mset:
  "mset (fst (waveLanes src k)) =
     mset (filter (\<lambda>i. i \<noteq> gapLaneOf src k) (map int [0..<nat LANE_COUNT]))"
proof -
  let ?av = "filter (\<lambda>i. i \<noteq> gapLaneOf src k) (map int [0..<nat LANE_COUNT])"
  have "mset (fst (shuffle src k' ?av (length ?av - 1))) = mset ?av" for k'
    by (rule shuffle_mset) (cases ?av; simp)
  then show ?thesis
    by (simp add: waveLanes_def gapLaneOf_def split_beta Let_def)
qed

lemma waveLanes_set: "set (fst (waveLanes src k)) = {0..<LANE_COUNT} - {gapLaneOf src k}"
  using mset_eq_setD [OF waveLanes_mset [of src k]] by (simp only: avail_set)

lemma waveLanes_distinct: "distinct (fst (waveLanes src k))"
proof -
  have "distinct (filter (\<lambda>i. i \<noteq> gapLaneOf src k) (map int [0..<nat LANE_COUNT]))"
    by (simp add: distinct_map inj_on_def)
  then show ?thesis
    using mset_eq_imp_distinct_iff [OF waveLanes_mset [of src k]] by simp
qed

lemma waveLanes_length: "length (fst (waveLanes src k)) = 6"
proof -
  have "card (set (fst (waveLanes src k))) = 6"
    using gapLane_range [of src k] by (simp add: waveLanes_set LANE_COUNT_def)
  then show ?thesis
    using distinct_card [OF waveLanes_distinct [of src k]] by simp
qed

lemma activeCount_update:
  "idx < length pool \<Longrightarrow> \<not> act (pool ! idx) \<Longrightarrow> act v \<Longrightarrow>
     activeCount act (pool[idx := v]) = Suc (activeCount act pool)"
proof (induction pool arbitrary: idx)
  case Nil
  then show ?case by simp
next
  case (Cons p pool)
  show ?case
  proof (cases idx)
    case 0
    then show ?thesis using Cons.prems by (simp add: activeCount_def)
  next
    case (Suc m)
    then show ?thesis using Cons.prems Cons.IH [of m] by (simp add: activeCount_def)
  qed
qed


lemma spawnLoop_count:
  "activeCount e_active (enemies (fst (spawnLoop d src ms df lanes n s)))
     = activeCount e_active (enemies s) + length (snd (spawnLoop d src ms df lanes n s))"
proof (induction lanes arbitrary: n s)
  case Nil
  show ?case by simp
next
  case (Cons lane rest)
  show ?case
  proof (cases "firstInactive e_active (enemies s)")
    case None
    then show ?thesis by simp
  next
    case (Some idx)
    have idx: "idx < length (enemies s)" "\<not> e_active (enemies s ! idx)"
      using firstInactive_Some [OF Some] by simp_all
    have up: "activeCount e_active ((enemies s)[idx := en]) = Suc (activeCount e_active (enemies s))"
      if "e_active en" for en
      using idx that by (rule activeCount_update)
    show ?thesis
      using Some by (simp add: Let_def split_beta Cons.IH up)
  qed
qed

lemma spawnLoop_lanes:
  assumes "k < length (enemies s)" and "\<not> e_active (enemies s ! k)"
    and "e_active (enemies (fst (spawnLoop d src ms df lanes n s)) ! k)"
  shows "e_lane (enemies (fst (spawnLoop d src ms df lanes n s)) ! k) \<in> set lanes"
  using assms
proof (induction lanes arbitrary: n s)
  case Nil
  then show ?case by simp
next
  case (Cons lane rest)
  show ?case
  proof (cases "n < MAX_ENEMIES")
    case False
    then show ?thesis using Cons.prems by simp
  next
    case True
    show ?thesis
    proof (cases "firstInactive e_active (enemies s)")
      case None
      then show ?thesis using True Cons.prems by simp
    next
      case (Some idx)
      define en where "en = \<lparr>e_x = real_of_int roadX + real_of_int lane * laneW d
                              + (laneW d - real_of_int CAR_W) / 2,
                       e_y = real_of_int (- (int n * (CAR_H + 8) + 8)),
                       e_speed = BASE_ENEMY_SPEED
                          + real_of_int (arduino_random src (rnd s) 0 50) / 50 + df * (12 / 100),
                       e_active = True,
                       e_nextFireAt = ms n + word_of_int (arduino_random src (Suc (rnd s))
                          ENEMY_FIRE_INTERVAL_MIN ENEMY_FIRE_INTERVAL_MAX),
                       e_lane = lane\<rparr>"
      define s1 where "s1 = s\<lparr>enemies := (enemies s)[idx := en], rnd := Suc (Suc (rnd s))\<rparr>"
      have unf: "fst (spawnLoop d src ms df (lane # rest) n s)
          = fst (spawnLoop d src ms df rest (Suc n) s1)"
        using True Some by (simp add: Let_def split_beta s1_def en_def)
      have idx: "idx < length (enemies s)"
        using firstInactive_Some [OF Some] by simp
      show ?thesis
      proof (cases "k = idx")
        case True
        have "e_active (enemies s1 ! k)" "k < length (enemies s1)"
          using True idx by (simp_all add: s1_def en_def)
        then have "enemies (fst (spawnLoop d src ms df rest (Suc n) s1)) ! k = enemies s1 ! k"
          using spawnLoop_keeps [of s1 d src ms df rest "Suc n"] by (simp add: keepsActive_def)
        moreover have "enemies s1 ! k = en"
          using True idx by (simp add: s1_def)
        ultimately have "e_lane (enemies (fst (spawnLoop d src ms df rest (Suc n) s1)) ! k) = lane"
          by (simp add: en_def)
        then show ?thesis
          unfolding unf by simp
      next
        case False
        have "k < length (enemies s1)" "\<not> e_active (enemies s1 ! k)"
          using False Cons.prems by (simp_all add: s1_def)
        moreover have "e_active (enemies (fst (spawnLoop d src ms df rest (Suc n) s1)) ! k)"
          using Cons.prems(3) unfolding unf .
        ultimately have "e_lane (enemies (fst (spawnLoop d src ms df rest (Suc n) s1)) ! k) \<in> set rest"
          by (rule Cons.IH)
        then show ?thesis
          unfolding unf by simp
      qed
    qed
  qed
qed

text \<open>
  Claim C5. A call of the wave spawner draws one gap lane among the seven lanes; the lanes
  it offers to the spawn loop are all the lanes but that one, so no enemy of the call is
  spawned in the gap lane. The call changes no slot that was active, and the number of
  enemies it activates, one per logged activation, is at most the number of slots that
  were inactive before the call.
\<close>

theorem wave_reserves_gap_lane:
  assumes "wf s"
  shows "0 \<le> gapLaneOf src (rnd s) \<and> gapLaneOf src (rnd s) < 7
    \<and> set (fst (waveLanes src (rnd s))) = {0..<7} - {gapLaneOf src (rnd s)}
    \<and> (\<forall>k < 4. e_active (enemies s ! k) \<longrightarrow>
          enemies (fst (spawnEnemiesWave d src ms df s)) ! k = enemies s ! k)
    \<and> (\<forall>k < 4. \<not> e_active (enemies s ! k)
            \<and> e_active (enemies (fst (spawnEnemiesWave d src ms df s)) ! k) \<longrightarrow>
          e_lane (enemies (fst (spawnEnemiesWave d src ms df s)) ! k) \<noteq> gapLaneOf src (rnd s)
          \<and> e_lane (enemies (fst (spawnEnemiesWave d src ms df s)) ! k)
               \<in> set (fst (waveLanes src (rnd s))))
    \<and> activeCount e_active (enemies (fst (spawnEnemiesWave d src ms df s)))
        = activeCount e_active (enemies s) + length (snd (spawnEnemiesWave d src ms df s))
    \<and> length (snd (spawnEnemiesWave d src ms df s)) \<le> 4 - activeCount e_active (enemies s)"
proof -
  let ?g = "gapLaneOf src (rnd s)"
  let ?w = "spawnEnemiesWave d src ms df s"
  have len: "length (enemies s) = 4"
    using assms by (simp add: wf_def MAX_ENEMIES_def)
  have len': "length (enemies (fst ?w)) = 4"
    using spawnEnemiesWave_keeps [of s d src ms df] by (simp add: keepsActive_def len)
  have unf: "?w = spawnLoop d src ms df (fst (waveLanes src (rnd s))) 0
      (s\<lparr>rnd := snd (waveLanes src (rnd s))\<rparr>)"
    by (simp add: spawnEnemiesWave_def split_beta)
  have 1: "0 \<le> ?g \<and> ?g < 7"
    using gapLane_range [of src "rnd s"] by (simp add: LANE_COUNT_def)
  have 2: "set (fst (waveLanes src (rnd s))) = {0..<7} - {?g}"
    using waveLanes_set [of src "rnd s"] by (simp add: LANE_COUNT_def)
  have 3: "\<forall>k < 4. e_active (enemies s ! k) \<longrightarrow> enemies (fst ?w) ! k = enemies s ! k"
    using spawnEnemiesWave_keeps [of s d src ms df] by (simp add: keepsActive_def len)
  have 4: "e_lane (enemies (fst ?w) ! k) \<in> set (fst (waveLanes src (rnd s)))"
    if "k < 4" "\<not> e_active (enemies s ! k)" "e_active (enemies (fst ?w) ! k)" for k
    unfolding unf
    by (rule spawnLoop_lanes) (use that len in \<open>simp_all add: unf [symmetric]\<close>)
  have 5: "activeCount e_active (enemies (fst ?w))
        = activeCount e_active (enemies s) + length (snd ?w)"
    unfolding unf using spawnLoop_count [of d src ms df _ 0 "s\<lparr>rnd := snd (waveLanes src (rnd s))\<rparr>"]
    by simp
  have "activeCount e_active (enemies (fst ?w)) \<le> 4"
    using activeCount_le [of e_active "enemies (fst ?w)"] by (simp add: len')
  then have 6: "length (snd ?w) \<le> 4 - activeCount e_active (enemies s)"
    using 5 by simp
  show ?thesis
    using 1 3 4 5 6 by (simp add: 2)
qed


text \<open>
  A wave called with slot 1 free: the gap lane is 3, the one enemy spawned goes to slot 1
  in lane 1.
\<close>

theorem wave_reserves_gap_lane_witness:
  "wf g1
   \<and> gapLaneOf src0 (rnd g1) = 3
   \<and> fst (waveLanes src0 (rnd g1)) = [1, 4, 6, 2, 5, 0]
   \<and> map e_active (enemies g1) = [True, False, True, True]
   \<and> snd (spawnEnemiesWave d0 src0 ms0 1 g1) = [Activate (EnemySlot 1)]
   \<and> e_lane (enemies (fst (spawnEnemiesWave d0 src0 ms0 1 g1)) ! 1) = 1
   \<and> activeCount e_active (enemies (fst (spawnEnemiesWave d0 src0 ms0 1 g1))) = 4"
proof -
  have w: "wf g1" by code_simp
  have ev: "gapLaneOf src0 (rnd g1) = 3" "fst (waveLanes src0 (rnd g1)) = [1, 4, 6, 2, 5, 0]"
    "map e_active (enemies g1) = [True, False, True, True]"
    "snd (spawnEnemiesWave d0 src0 ms0 1 g1) = [Activate (EnemySlot 1)]"
    "e_lane (enemies (fst (spawnEnemiesWave d0 src0 ms0 1 g1)) ! 1) = 1"
    "activeCount e_active (enemies g1) = 3"
    by code_simp+
  show ?thesis
    using wave_reserves_gap_lane [OF w, of src0 d0 ms0 1] w ev by simp
qed

subsection \<open>Enemy bullets against the player\<close>

lemma keepsVerdict_spawnLoop:
  "keepsVerdict s (snd (spawnLoop d src ms df lanes n s)) (fst (spawnLoop d src ms df lanes n s))"
proof (induction lanes arbitrary: n s)
  case Nil
  show ?case by (simp add: keepsVerdict_def)
next
  case (Cons lane rest)
  show ?case
    using Cons.IH [unfolded keepsVerdict_def]
    by (simp add: Let_def split_beta keepsVerdict_def split: option.splits)
qed

lemma keepsVerdict_finishPhase:
  "keepsVerdict s (snd (finishPhase d src i df s)) (fst (finishPhase d src i df s))"
  using keepsVerdict_spawnLoop [unfolded keepsVerdict_def]
  by (simp add: finishPhase_def andThen_def split_beta hud_def Let_def newWave_def
      spawnEnemiesWave_def drawPlayer_def keepsVerdict_def)

lemma collideEnemyBullets_find:
  "fst (collideEnemyBullets bs s) =
     (case find (\<lambda>b. b_active (enemyBullets s ! b) \<and> hitsPlayer s b) bs of
        None \<Rightarrow> s
      | Some b \<Rightarrow> s\<lparr>enemyBullets := (enemyBullets s)[b := (enemyBullets s ! b)\<lparr>b_active := False\<rparr>],
                    isGameOver := True\<rparr>)"
  by (induction bs) (simp_all add: split_beta)

lemma frameSteps_unfold:
  "frameSteps d src i s =
    (let s0 = s\<lparr>lastFrame := in_now i\<rparr>;
         p1 = physicsPhase d src i s0;
         p2 = collidePlayerBullets (fst p1);
         p3 = collideEnemyBullets [0..<MAX_ENEMY_BULLETS] (fst p2);
         p4 = finishPhase d src i (difficultyAt (in_now i) s0) (fst p3)
     in (fst p4, snd p1 @ snd p2 @ snd p3 @ snd p4))"
  by (simp add: frameSteps_def collisionPhase_def andThen_def split_beta Let_def)

text \<open>
  Claim C8. In a frame that runs, let \<open>b\<close> be the first active enemy bullet whose
  rectangle meets the player rectangle when the enemy bullets are tested. Then the loop
  deactivates that bullet, sets the game-over flag and stops; both still hold at the end
  of the frame, whose outcome is the game-over screen (or the return to the menu, when the
  back button is held): the frame loop does not run again, whatever inputs follow. One hit
  ends the session; there is no health to use up.
\<close>

theorem first_enemy_bullet_hit_is_terminal:
  assumes "in_now i - lastFrame s \<ge> FRAME_MS"
    and "wf s"
    and "find (\<lambda>b. b_active (enemyBullets (atPlayerTest d src i s) ! b)
                   \<and> hitsPlayer (atPlayerTest d src i s) b) [0..<MAX_ENEMY_BULLETS] = Some b"
  shows "b < 10
    \<and> b_active (enemyBullets (atPlayerTest d src i s) ! b) \<and> hitsPlayer (atPlayerTest d src i s) b
    \<and> (\<forall>b' < b. \<not> (b_active (enemyBullets (atPlayerTest d src i s) ! b')
                     \<and> hitsPlayer (atPlayerTest d src i s) b'))
    \<and> fst (collideEnemyBullets [0..<MAX_ENEMY_BULLETS] (atPlayerTest d src i s)) =
        (atPlayerTest d src i s)\<lparr>enemyBullets := (enemyBullets (atPlayerTest d src i s))
             [b := (enemyBullets (atPlayerTest d src i s) ! b)\<lparr>b_active := False\<rparr>],
           isGameOver := True\<rparr>
    \<and> isGameOver (fst (frameSteps d src i s))
    \<and> \<not> b_active (enemyBullets (fst (frameSteps d src i s)) ! b)
    \<and> fst (frame d src i s) =
        (if in_btnBack i then Exited else GameOverScreen (fst (frameSteps d src i s)))
    \<and> session d src (i # ins) s = fst (frame d src i s)"
proof -
  let ?s5 = "atPlayerTest d src i s"
  let ?P = "\<lambda>b. b_active (enemyBullets ?s5 ! b) \<and> hitsPlayer ?s5 b"
  let ?s6 = "?s5\<lparr>enemyBullets := (enemyBullets ?s5)[b := (enemyBullets ?s5 ! b)\<lparr>b_active := False\<rparr>],
           isGameOver := True\<rparr>"
  from assms(3) obtain k where k: "k < length [0..<MAX_ENEMY_BULLETS]" "?P ([0..<MAX_ENEMY_BULLETS] ! k)"
    "b = [0..<MAX_ENEMY_BULLETS] ! k" "\<forall>j < k. \<not> ?P ([0..<MAX_ENEMY_BULLETS] ! j)"
    unfolding find_Some_iff by blast
  have bk: "b = k" "b < 10"
    using k(1,3) by (simp_all add: MAX_ENEMY_BULLETS_def)
  have first: "?P b" "\<forall>b' < b. \<not> ?P b'"
    using k bk by (simp_all add: MAX_ENEMY_BULLETS_def)
  have w5: "wf ?s5"
    using assms(2)
    by (simp add: atPlayerTest_def afterPhysics_def wf_shape shape_collidePlayerBullets
        shape_physicsPhase)
      (simp add: shape_def)
  have len: "length (enemyBullets ?s5) = 10"
    using w5 by (simp add: wf_def MAX_ENEMY_BULLETS_def)
  have c: "fst (collideEnemyBullets [0..<MAX_ENEMY_BULLETS] ?s5) = ?s6"
    by (simp add: collideEnemyBullets_find assms(3))
  define df where "df = difficultyAt (in_now i) (s\<lparr>lastFrame := in_now i\<rparr>)"
  have fs: "fst (frameSteps d src i s) = fst (finishPhase d src i df ?s6)"
    using c by (simp add: frameSteps_unfold Let_def atPlayerTest_def afterPhysics_def df_def)
  have kv: "isGameOver (fst (frameSteps d src i s)) = isGameOver ?s6"
    "enemyBullets (fst (frameSteps d src i s)) = enemyBullets ?s6"
    using keepsVerdict_finishPhase [of ?s6 d src i df] by (simp_all add: fs keepsVerdict_def)
  have over: "isGameOver (fst (frameSteps d src i s))"
    by (simp add: kv)
  have dead: "\<not> b_active (enemyBullets (fst (frameSteps d src i s)) ! b)"
    using bk len by (simp add: kv)
  have fr: "fst (frame d src i s) =
        (if in_btnBack i then Exited else GameOverScreen (fst (frameSteps d src i s)))"
    using assms(1) over by (simp add: frame_def frameBody_def split_beta exitCheck_def not_less)
  have se: "session d src (i # ins) s = fst (frame d src i s)"
    by (simp add: fr)
  show ?thesis
    using bk first c over dead fr se by blast
qed


text \<open>A frame in which enemy bullet 0 reaches the player.\<close>

theorem first_enemy_bullet_hit_is_terminal_witness:
  "in_now i0 - lastFrame g2 \<ge> FRAME_MS
   \<and> find (\<lambda>b. b_active (enemyBullets (atPlayerTest d0 src0 i0 g2) ! b)
                   \<and> hitsPlayer (atPlayerTest d0 src0 i0 g2) b) [0..<MAX_ENEMY_BULLETS] = Some 0
   \<and> isGameOver (fst (frameSteps d0 src0 i0 g2))
   \<and> \<not> b_active (enemyBullets (fst (frameSteps d0 src0 i0 g2)) ! 0)
   \<and> fst (frame d0 src0 i0 g2) = GameOverScreen (fst (frameSteps d0 src0 i0 g2))
   \<and> session d0 src0 [i0, i0, i0] g2 = GameOverScreen (fst (frameSteps d0 src0 i0 g2))"
proof -
  have t: "in_now i0 - lastFrame g2 \<ge> FRAME_MS" by code_simp
  have w: "wf g2" by code_simp
  have f: "find (\<lambda>b. b_active (enemyBullets (atPlayerTest d0 src0 i0 g2) ! b)
                   \<and> hitsPlayer (atPlayerTest d0 src0 i0 g2) b) [0..<MAX_ENEMY_BULLETS] = Some 0"
    by code_simp
  have nb: "\<not> in_btnBack i0" by (simp add: i0_def)
  show ?thesis
    using first_enemy_bullet_hit_is_terminal [OF t w f, of "[i0, i0]"] t f nb by simp
qed

subsection \<open>Player bullets against enemies\<close>

lemma sameGeometry_refl: "sameGeometry s s"
  by (simp add: sameGeometry_def)

lemma sameGeometry_trans: "sameGeometry s s1 \<Longrightarrow> sameGeometry s1 s2 \<Longrightarrow> sameGeometry s s2"
  by (simp add: sameGeometry_def)

lemma sameGeometry_overlaps: "sameGeometry s s' \<Longrightarrow> overlaps s' b e = overlaps s b e"
  by (simp add: sameGeometry_def overlaps_def)

lemma bulletPass_refl: "bulletPass b s [] s"
  by (simp add: bulletPass_def sameGeometry_refl)

lemma bulletPass_trans:
  assumes "bulletPass b s t1 s1" and "bulletPass b s1 t2 s2"
  shows "bulletPass b s (t1 @ t2) s2"
proof -
  have g1: "sameGeometry s s1" and g2: "sameGeometry s1 s2"
    using assms by (simp_all add: bulletPass_def)
  have ov: "overlaps s1 b e = overlaps s b e" for e
    using g1 by (rule sameGeometry_overlaps)
  have act: "e_active (enemies s1 ! e) \<Longrightarrow> e_active (enemies s ! e)" for e
    using g1 by (simp add: sameGeometry_def)
  have 1: "wf s \<longrightarrow> wf s2"
    using assms by (simp add: bulletPass_def)
  have 2: "sameGeometry s s2"
    using g1 g2 by (rule sameGeometry_trans)
  have 3: "e < 4 \<and> overlaps s b e" if "e_active (enemies s ! e)" "\<not> e_active (enemies s2 ! e)" for e
  proof (cases "e_active (enemies s1 ! e)")
    case True
    then have "e < 4 \<and> overlaps s1 b e"
      using assms(2) that by (simp add: bulletPass_def)
    then show ?thesis by (simp add: ov)
  next
    case False
    then show ?thesis
      using assms(1) that by (simp add: bulletPass_def)
  qed
  have 4: "playerBullets s2 ! b' = playerBullets s ! b'" if "b' \<noteq> b" for b'
    using assms that by (simp add: bulletPass_def)
  have 5: "\<exists>e < 4. e_active (enemies s ! e) \<and> overlaps s b e"
    if h: "b_active (playerBullets s ! b)" "\<not> b_active (playerBullets s2 ! b)"
  proof (cases "b_active (playerBullets s1 ! b)")
    case True
    then obtain e where "e < 4" "e_active (enemies s1 ! e)" "overlaps s1 b e"
      using assms(2) h by (auto simp: bulletPass_def)
    then show ?thesis
      using act ov by blast
  next
    case False
    then show ?thesis
      using assms(1) that by (simp add: bulletPass_def)
  qed
  show ?thesis
    unfolding bulletPass_def using 1 2 3 4 5 by blast
qed


lemma nth_update_total:
  "xs[i := x] ! k = (if k = i \<and> i < length xs then x else xs ! k)"
  by (cases "i < length xs") (auto simp: nth_list_update list_update_beyond)

lemma bulletPass_collidePair:
  "e < 4 \<Longrightarrow> bulletPass b s (snd (collidePair b e s)) (fst (collidePair b e s))"
  unfolding bulletPass_def
  by (auto simp: collidePair_def Let_def wf_def sameGeometry_def nth_update_total split: if_splits)

lemma bulletPass_inner:
  "bulletPass b s (snd (forSlots (collidePair b) [0..<MAX_ENEMIES] s))
     (fst (forSlots (collidePair b) [0..<MAX_ENEMIES] s))"
  by (rule forSlots_lift [where R = "bulletPass b"])
    (simp_all add: bulletPass_refl bulletPass_collidePair MAX_ENEMIES_def, erule (1) bulletPass_trans)

lemma collisionPass_refl: "collisionPass s [] s"
  by (simp add: collisionPass_def sameGeometry_refl)

lemma collisionPass_trans:
  assumes "collisionPass s t1 s1" and "collisionPass s1 t2 s2"
  shows "collisionPass s (t1 @ t2) s2"
proof -
  have g1: "sameGeometry s s1" and g2: "sameGeometry s1 s2"
    using assms by (simp_all add: collisionPass_def)
  have ov: "overlaps s1 b e = overlaps s b e" for b e
    using g1 by (rule sameGeometry_overlaps)
  have acte: "e_active (enemies s1 ! e) \<Longrightarrow> e_active (enemies s ! e)" for e
    using g1 by (simp add: sameGeometry_def)
  have actb: "b_active (playerBullets s1 ! b) \<Longrightarrow> b_active (playerBullets s ! b)" for b
    using g1 by (simp add: sameGeometry_def)
  have 1: "wf s \<longrightarrow> wf s2"
    using assms by (simp add: collisionPass_def)
  have 2: "sameGeometry s s2"
    using g1 g2 by (rule sameGeometry_trans)
  have 3: "e < 4 \<and> (\<exists>b < 6. b_active (playerBullets s ! b) \<and> overlaps s b e)"
    if h: "e_active (enemies s ! e)" "\<not> e_active (enemies s2 ! e)" for e
  proof (cases "e_active (enemies s1 ! e)")
    case True
    then obtain b where "e < 4" "b < 6" "b_active (playerBullets s1 ! b)" "overlaps s1 b e"
      using assms(2) h by (auto simp: collisionPass_def)
    then show ?thesis
      using actb ov by blast
  next
    case False
    then show ?thesis
      using assms(1) h by (simp add: collisionPass_def)
  qed
  have 4: "b < 6 \<and> (\<exists>e < 4. e_active (enemies s ! e) \<and> overlaps s b e)"
    if h: "b_active (playerBullets s ! b)" "\<not> b_active (playerBullets s2 ! b)" for b
  proof (cases "b_active (playerBullets s1 ! b)")
    case True
    then obtain e where "b < 6" "e < 4" "e_active (enemies s1 ! e)" "overlaps s1 b e"
      using assms(2) h by (auto simp: collisionPass_def)
    then show ?thesis
      using acte ov by blast
  next
    case False
    then show ?thesis
      using assms(1) h by (simp add: collisionPass_def)
  qed
  show ?thesis
    unfolding collisionPass_def using 1 2 3 4 by blast
qed

lemma collisionPass_collideBullet:
  assumes "b < 6"
  shows "collisionPass s (snd (collideBullet b s)) (fst (collideBullet b s))"
proof (cases "b_active (playerBullets s ! b)")
  case False
  then show ?thesis by (simp add: collideBullet_def collisionPass_refl)
next
  case True
  let ?r = "forSlots (collidePair b) [0..<MAX_ENEMIES] s"
  have bp: "bulletPass b s (snd ?r) (fst ?r)"
    by (rule bulletPass_inner)
  have 3: "e < 4 \<and> (\<exists>b < 6. b_active (playerBullets s ! b) \<and> overlaps s b e)"
    if "e_active (enemies s ! e)" "\<not> e_active (enemies (fst ?r) ! e)" for e
    using bp that True assms unfolding bulletPass_def by blast
  have 4: "b' < 6 \<and> (\<exists>e < 4. e_active (enemies s ! e) \<and> overlaps s b' e)"
    if "b_active (playerBullets s ! b')" "\<not> b_active (playerBullets (fst ?r) ! b')" for b'
  proof (cases "b' = b")
    case True
    then show ?thesis
      using bp that assms unfolding bulletPass_def by blast
  next
    case False
    then have "playerBullets (fst ?r) ! b' = playerBullets s ! b'"
      using bp by (simp add: bulletPass_def)
    then show ?thesis using that by simp
  qed
  have "collisionPass s (snd ?r) (fst ?r)"
    unfolding collisionPass_def using bp 3 4 by (simp add: bulletPass_def)
  then show ?thesis
    using True by (simp add: collideBullet_def)
qed

lemma collisionPass_collidePlayerBullets:
  "collisionPass s (snd (collidePlayerBullets s)) (fst (collidePlayerBullets s))"
  unfolding collidePlayerBullets_def
  by (rule forSlots_lift [where R = collisionPass])
    (simp_all add: collisionPass_refl collisionPass_collideBullet MAX_PLAYER_BULLETS_def,
      erule (1) collisionPass_trans)


lemma hitTest_geometry:
  "hitTest bx by0 ex ey \<longleftrightarrow>
     (\<exists>x y. bx - 2 \<le> x \<and> x \<le> bx + 2 \<and> ex \<le> x \<and> x \<le> ex + 28
          \<and> by0 - 4 \<le> y \<and> y \<le> by0 + 4 \<and> ey \<le> y \<and> y \<le> ey + 20)"
proof
  assume h: "hitTest bx by0 ex ey"
  show "\<exists>x y. bx - 2 \<le> x \<and> x \<le> bx + 2 \<and> ex \<le> x \<and> x \<le> ex + 28
          \<and> by0 - 4 \<le> y \<and> y \<le> by0 + 4 \<and> ey \<le> y \<and> y \<le> ey + 20"
    using h
    by (intro exI [of _ "max (bx - 2) ex"] exI [of _ "max (by0 - 4) ey"])
      (simp add: hitTest_def CAR_W_def CAR_H_def)
next
  assume "\<exists>x y. bx - 2 \<le> x \<and> x \<le> bx + 2 \<and> ex \<le> x \<and> x \<le> ex + 28
          \<and> by0 - 4 \<le> y \<and> y \<le> by0 + 4 \<and> ey \<le> y \<and> y \<le> ey + 20"
  then show "hitTest bx by0 ex ey"
    by (auto simp: hitTest_def CAR_W_def CAR_H_def)
qed

lemma collidePair_hit:
  assumes "wf s" "b < 6" "e < 4" "e_active (enemies s ! e)"
  shows "(\<not> b_active (playerBullets (fst (collidePair b e s)) ! b)
          \<and> \<not> e_active (enemies (fst (collidePair b e s)) ! e)) \<longleftrightarrow> overlaps s b e"
  using assms
  by (simp add: collidePair_def Let_def wf_def MAX_ENEMIES_def MAX_PLAYER_BULLETS_def)

lemma collidePair_miss: "\<not> overlaps s b e \<Longrightarrow> fst (collidePair b e s) = s"
  by (simp add: collidePair_def Let_def)

text \<open>
  Claim C7, as amended. The test is the meeting of two closed rectangles: the bullet's,
  2 pixels to each side and 4 pixels up and down of its truncated position, and the
  enemy's, 28 by 20 from its truncated corner. When a pair is tested with both the bullet
  and the enemy active, both are deactivated exactly if the rectangles meet; a pair whose
  rectangles do not meet leaves the state as it is. Over the whole double loop, an enemy
  is deactivated only if a bullet that was active met it, and a bullet only if it met an
  enemy that was active. The scenario values hold.
\<close>

theorem bullet_enemy_hit_needs_overlap:
  assumes "wf s" and "b < 6" and "e < 4"
  shows "(overlaps s b e \<longleftrightarrow>
           (\<exists>x y. toInt (b_x (playerBullets s ! b)) - 2 \<le> x \<and> x \<le> toInt (b_x (playerBullets s ! b)) + 2
                \<and> toInt (e_x (enemies s ! e)) \<le> x \<and> x \<le> toInt (e_x (enemies s ! e)) + 28
                \<and> toInt (b_y (playerBullets s ! b)) - 4 \<le> y \<and> y \<le> toInt (b_y (playerBullets s ! b)) + 4
                \<and> toInt (e_y (enemies s ! e)) \<le> y \<and> y \<le> toInt (e_y (enemies s ! e)) + 20))
    \<and> (b_active (playerBullets s ! b) \<and> e_active (enemies s ! e) \<longrightarrow>
          ((\<not> b_active (playerBullets (fst (collidePair b e s)) ! b)
             \<and> \<not> e_active (enemies (fst (collidePair b e s)) ! e)) \<longleftrightarrow> overlaps s b e))
    \<and> (\<not> overlaps s b e \<longrightarrow> fst (collidePair b e s) = s)
    \<and> (e_active (enemies s ! e) \<and> \<not> e_active (enemies (fst (collidePlayerBullets s)) ! e) \<longrightarrow>
          (\<exists>b' < 6. b_active (playerBullets s ! b') \<and> overlaps s b' e))
    \<and> (b_active (playerBullets s ! b) \<and> \<not> b_active (playerBullets (fst (collidePlayerBullets s)) ! b) \<longrightarrow>
          (\<exists>e' < 4. e_active (enemies s ! e') \<and> overlaps s b e'))
    \<and> hitTest 50 55 40 50 \<and> \<not> hitTest 80 55 40 50"
proof -
  have 1: "overlaps s b e \<longleftrightarrow>
           (\<exists>x y. toInt (b_x (playerBullets s ! b)) - 2 \<le> x \<and> x \<le> toInt (b_x (playerBullets s ! b)) + 2
                \<and> toInt (e_x (enemies s ! e)) \<le> x \<and> x \<le> toInt (e_x (enemies s ! e)) + 28
                \<and> toInt (b_y (playerBullets s ! b)) - 4 \<le> y \<and> y \<le> toInt (b_y (playerBullets s ! b)) + 4
                \<and> toInt (e_y (enemies s ! e)) \<le> y \<and> y \<le> toInt (e_y (enemies s ! e)) + 20)"
    unfolding overlaps_def by (rule hitTest_geometry)
  have 2: "(\<not> b_active (playerBullets (fst (collidePair b e s)) ! b)
             \<and> \<not> e_active (enemies (fst (collidePair b e s)) ! e)) \<longleftrightarrow> overlaps s b e"
    if "e_active (enemies s ! e)"
    using assms that by (rule collidePair_hit)
  have 3: "fst (collidePair b e s) = s" if "\<not> overlaps s b e"
    using that by (rule collidePair_miss)
  have cp: "collisionPass s (snd (collidePlayerBullets s)) (fst (collidePlayerBullets s))"
    by (rule collisionPass_collidePlayerBullets)
  have 4: "\<exists>b' < 6. b_active (playerBullets s ! b') \<and> overlaps s b' e"
    if "e_active (enemies s ! e)" "\<not> e_active (enemies (fst (collidePlayerBullets s)) ! e)"
    using cp that unfolding collisionPass_def by blast
  have 5: "\<exists>e' < 4. e_active (enemies s ! e') \<and> overlaps s b e'"
    if "b_active (playerBullets s ! b)" "\<not> b_active (playerBullets (fst (collidePlayerBullets s)) ! b)"
    using cp that unfolding collisionPass_def by blast
  have 6: "hitTest 50 55 40 50 \<and> \<not> hitTest 80 55 40 50"
    by (simp add: hitTest_def CAR_W_def CAR_H_def)
  show ?thesis
    using 1 2 3 4 5 6 by blast
qed

text \<open>
  In the frame \<open>i1\<close> from \<open>gc\<close>, bullet 0 and enemy 0 are active and meet when they are
  tested, and the test deactivates both.
\<close>

theorem bullet_enemy_hit_needs_overlap_witness:
  "wf (afterPhysics d0 src0 i1 gc)
   \<and> b_active (playerBullets (afterPhysics d0 src0 i1 gc) ! 0)
   \<and> e_active (enemies (afterPhysics d0 src0 i1 gc) ! 0)
   \<and> overlaps (afterPhysics d0 src0 i1 gc) 0 0
   \<and> \<not> b_active (playerBullets (fst (collidePair 0 0 (afterPhysics d0 src0 i1 gc))) ! 0)
   \<and> \<not> e_active (enemies (fst (collidePair 0 0 (afterPhysics d0 src0 i1 gc))) ! 0)"
proof -
  have w: "wf (afterPhysics d0 src0 i1 gc)" by code_simp
  have a: "b_active (playerBullets (afterPhysics d0 src0 i1 gc) ! 0)"
    "e_active (enemies (afterPhysics d0 src0 i1 gc) ! 0)"
    "overlaps (afterPhysics d0 src0 i1 gc) 0 0"
    by code_simp+
  show ?thesis
    using bullet_enemy_hit_needs_overlap [OF w, of 0 0] w a by simp
qed

text \<open>
  Claim C7 as stated fails in the same frame: bullet 1 and enemy 0 are active and their
  rectangles meet when the collisions are evaluated, yet bullet 1 is still active after
  the collisions and at the end of the frame. Enemy 0 was deactivated by bullet 0, and the
  loop skips an enemy that is no longer active.
\<close>

theorem overlapping_pair_not_resolved:
  "b_active (playerBullets (afterPhysics d0 src0 i1 gc) ! 1)
   \<and> e_active (enemies (afterPhysics d0 src0 i1 gc) ! 0)
   \<and> overlaps (afterPhysics d0 src0 i1 gc) 1 0
   \<and> \<not> e_active (enemies (fst (collidePlayerBullets (afterPhysics d0 src0 i1 gc))) ! 0)
   \<and> b_active (playerBullets (fst (collidePlayerBullets (afterPhysics d0 src0 i1 gc))) ! 1)
   \<and> b_active (playerBullets (fst (frameSteps d0 src0 i1 gc)) ! 1)"
  by code_simp

subsection \<open>Order of the phases of a frame\<close>











subsection \<open>Render cache\<close>

text \<open>
  Claim C1 (the code departs from it). The caches follow the draws, and each deactivation
  is followed by one call of \<^verbatim>\<open>eraseRect\<close> for the sprite. But the inner loop of the
  bullet-enemy collisions has no \<^verbatim>\<open>break\<close>, unlike the enemy-bullet loop: a bullet that
  has hit an enemy is still tested against the enemies that follow. In the frame \<open>i1\<close>
  from \<open>gd\<close>, bullet 0 meets enemy 0 and enemy 1: it is deactivated twice and its last
  rectangle is erased twice in that frame, where the claim says exactly once. At the end
  of the frame the caches of the player, of both enemies and of the bullet hold the
  positions at which they were last drawn, and each enemy was erased once.
\<close>

theorem bullet_erased_twice_in_one_frame:
  "overlaps (afterPhysics d0 src0 i1 gd) 0 0
   \<and> overlaps (afterPhysics d0 src0 i1 gd) 0 1
   \<and> snd (collisionPhase (afterPhysics d0 src0 i1 gd)) =
       [Collide (PlayerBulletSlot 0) (EnemySlot 0),
        Deactivate (EnemySlot 0), Deactivate (PlayerBulletSlot 0),
        Erase (EnemySlot 0) 33 58 28 24, Erase (PlayerBulletSlot 0) 52 48 6 12,
        Flash 37 62 20 12,
        Collide (PlayerBulletSlot 0) (EnemySlot 1),
        Deactivate (EnemySlot 1), Deactivate (PlayerBulletSlot 0),
        Erase (EnemySlot 1) 50 46 28 24, Erase (PlayerBulletSlot 0) 52 48 6 12,
        Flash 54 50 20 12,
        Collide (PlayerBulletSlot 0) (EnemySlot 2), Collide (PlayerBulletSlot 0) (EnemySlot 3)]
   \<and> erasesSinceDraw (PlayerBulletSlot 0) (snd (frameSteps d0 src0 i1 gd)) 0 = 2
   \<and> erasesSinceDraw (EnemySlot 0) (snd (frameSteps d0 src0 i1 gd)) 0 = 1
   \<and> erasesSinceDraw (EnemySlot 1) (snd (frameSteps d0 src0 i1 gd)) 0 = 1
   \<and> map (\<lambda>k. cachedPos (fst (frameSteps d0 src0 i1 gd)) k
              = lastDrawn k (snd (frameSteps d0 src0 i1 gd)) (cachedPos gd k))
         [PlayerSlot, EnemySlot 0, EnemySlot 1, PlayerBulletSlot 0] = [True, True, True, True]
   \<and> score gd = 0 \<and> score (fst (frameSteps d0 src0 i1 gd)) = 21"
  by code_simp

end
